theory Spec2Isabelle
  imports Complex_Main "HOL-Library.Log_Nat"
begin

section \<open>Billing service: payment and wallet transaction engine\<close>

text \<open>
  A shallow embedding of the billing service's transaction engine: the gateway status
  mapper, the platform fee model, the wallet model, the transaction and token models, the
  payment and wallet services with their webhook callbacks, and the subscription renewal
  service.

  Conventions of the embedding.
  \<^item> An amount that the database stores and moves (\<open>increment\<close>, \<open>decrement\<close>, the
    comparison with a balance) is an exact rational (\<open>rat\<close>). The arithmetic that JavaScript
    itself performs on money, in \<open>calculateFee\<close>, is the arithmetic of doubles, and the
    decimal columns that \<open>calculateFee\<close> reads are the values that the database driver hands
    over (see the two subsections on numbers and decimal columns). Identifiers are natural
    numbers.
  \<^item> A value that may be \<open>undefined\<close> or \<open>null\<close> is an \<open>option\<close>; JavaScript truthiness
    (\<open>!x\<close>, \<open>x && ...\<close>) is written out with the \<open>truthy\<close> functions below.
  \<^item> A database table is a list of rows in insertion order, except \<open>balances\<close>, whose
    unique key (user, currency) makes it a map. Storage failures are not modelled.
  \<^item> A thrown exception is the \<open>Inl\<close> of a sum; every function that touches the
    database takes the state and returns the new one.
\<close>

subsection \<open>Status vocabulary and the gateway status mapper\<close>

datatype tx_status = Pending | Completed | Failed | Canceled

text \<open>
  \<open>String.prototype.toLowerCase\<close> on the ASCII letters. Bytes outside \<open>A..Z\<close> are kept:
  no character outside ASCII lower-cases to a string of the mapper's vocabulary.
\<close>

definition toLowerCase_char :: "char \<Rightarrow> char" where
  "toLowerCase_char c =
     (if 65 \<le> (of_char c :: nat) \<and> (of_char c :: nat) \<le> 90
      then char_of ((of_char c :: nat) + 32) else c)"

definition toLowerCase :: "string \<Rightarrow> string" where
  "toLowerCase s = map toLowerCase_char s"

definition completed_words :: "string list" where
  "completed_words = [''success'', ''completed'', ''paid'', ''approved'', ''withdraw'']"

definition failed_words :: "string list" where
  "failed_words = [''failed'', ''error'', ''declined'', ''rejected'']"

definition canceled_words :: "string list" where
  "canceled_words = [''cancelled'', ''canceled'', ''cancel'']"

definition pending_words :: "string list" where
  "pending_words =
     [''pending'', ''processing'', ''waiting'', ''created'', ''in_progress'', ''initiated'']"

text \<open>
  \<open>mapPaymentStatus\<close>: the switch over \<open>paymentStatus?.toLowerCase()\<close>. The argument is
  \<open>None\<close> when the caller passes \<open>undefined\<close>; the optional chaining then selects the
  default branch. The \<open>console.log\<close> is not modelled.
\<close>

definition mapPaymentStatus :: "string option \<Rightarrow> tx_status" where
  "mapPaymentStatus paymentStatus =
     (case map_option toLowerCase paymentStatus of
        None \<Rightarrow> Pending
      | Some s \<Rightarrow>
          if s \<in> set completed_words then Completed
          else if s \<in> set failed_words then Failed
          else if s \<in> set canceled_words then Canceled
          else Pending)"

subsection \<open>JavaScript truthiness\<close>

definition truthy_id :: "nat option \<Rightarrow> bool" where
  "truthy_id x = (case x of None \<Rightarrow> False | Some n \<Rightarrow> n \<noteq> 0)"

definition truthy_str :: "string \<Rightarrow> bool" where
  "truthy_str x = (x \<noteq> [])"

subsection \<open>JavaScript numbers\<close>

text \<open>
  A JavaScript \<open>number\<close> is an IEEE 754 double. The finite doubles are embedded in the
  rationals, and every arithmetic operation returns the double nearest to the exact result,
  a tie going to the even significand (53 bits). An argument of these operations is meant
  to be a double itself. The exponent range is not modelled: there is no overflow to
  \<open>Infinity\<close>, no subnormal number, no \<open>NaN\<close> and no negative zero.

  \<open>binade x\<close> is the exponent \<open>e\<close> with \<open>2 ^ e \<le> |x| < 2 ^ (e + 1)\<close>; \<open>fl x\<close> is the
  double nearest to \<open>x\<close>.
\<close>

definition pow2 :: "int \<Rightarrow> rat" where
  "pow2 e = (if 0 \<le> e then 2 ^ nat e else 1 / 2 ^ nat (- e))"

definition binade :: "rat \<Rightarrow> int" where
  "binade x =
     (case quotient_of \<bar>x\<bar> of
        (p, q) \<Rightarrow> let e = bitlen p - bitlen q in if pow2 e \<le> \<bar>x\<bar> then e else e - 1)"

definition round_half_even :: "rat \<Rightarrow> int" where
  "round_half_even y =
     (let n = \<lfloor>y\<rfloor>; d = y - of_int n
      in if d < 1 / 2 then n else if 1 / 2 < d then n + 1 else if even n then n else n + 1)"

definition fl :: "rat \<Rightarrow> rat" where
  "fl x = (if x = 0 then 0
           else let ulp = pow2 (binade x - 52) in of_int (round_half_even (x / ulp)) * ulp)"

text \<open>The operators \<open>*\<close>, \<open>/\<close> and \<open>-\<close> on numbers, and \<open>Math.round\<close>, which returns the
  nearest integer, a tie going towards plus infinity.\<close>

definition fmul :: "rat \<Rightarrow> rat \<Rightarrow> rat" where
  "fmul x y = fl (x * y)"

definition fdiv :: "rat \<Rightarrow> rat \<Rightarrow> rat" where
  "fdiv x y = fl (x / y)"

definition fsub :: "rat \<Rightarrow> rat \<Rightarrow> rat" where
  "fsub x y = fl (x - y)"

definition mathRound :: "rat \<Rightarrow> rat" where
  "mathRound x = of_int \<lfloor>x + 1 / 2\<rfloor>"

subsection \<open>Decimal columns\<close>

text \<open>
  The text of a decimal column as the database prints it: an optional minus sign, at least
  one digit, and, when the column has a scale, a point and the digits of the fraction.
\<close>

datatype digit = D0 | D1 | D2 | D3 | D4 | D5 | D6 | D7 | D8 | D9

fun digit_value :: "digit \<Rightarrow> nat" where
  "digit_value D0 = 0" | "digit_value D1 = 1" | "digit_value D2 = 2" | "digit_value D3 = 3"
| "digit_value D4 = 4" | "digit_value D5 = 5" | "digit_value D6 = 6" | "digit_value D7 = 7"
| "digit_value D8 = 8" | "digit_value D9 = 9"

fun digit_char :: "digit \<Rightarrow> char" where
  "digit_char D0 = CHR ''0''" | "digit_char D1 = CHR ''1''" | "digit_char D2 = CHR ''2''"
| "digit_char D3 = CHR ''3''" | "digit_char D4 = CHR ''4''" | "digit_char D5 = CHR ''5''"
| "digit_char D6 = CHR ''6''" | "digit_char D7 = CHR ''7''" | "digit_char D8 = CHR ''8''"
| "digit_char D9 = CHR ''9''"

datatype decimal = Decimal (negative: bool) (leading: digit) (integer_rest: "digit list")
  (fraction: "digit list")

definition digits_value :: "digit list \<Rightarrow> nat" where
  "digits_value ds = foldl (\<lambda>n d. 10 * n + digit_value d) 0 ds"

definition decimal_value :: "decimal \<Rightarrow> rat" where
  "decimal_value d =
     (let v = of_nat (digits_value (leading d # integer_rest d))
                + of_nat (digits_value (fraction d)) / 10 ^ length (fraction d)
      in if negative d then - v else v)"

definition text_of :: "decimal \<Rightarrow> string" where
  "text_of d =
     (if negative d then ''-'' else [])
     @ map digit_char (leading d # integer_rest d)
     @ (if fraction d = [] then [] else CHR ''.'' # map digit_char (fraction d))"

text \<open>The relational comparison of two strings: by code units, a proper prefix being
  smaller.\<close>

fun text_lt :: "string \<Rightarrow> string \<Rightarrow> bool" where
  "text_lt [] [] = False"
| "text_lt [] (y # ys) = True"
| "text_lt (x # xs) [] = False"
| "text_lt (x # xs) (y # ys) =
     (if (of_char x :: nat) < of_char y then True
      else if (of_char y :: nat) < of_char x then False
      else text_lt xs ys)"

text \<open>
  The value that the database driver hands over for a decimal column: TypeScript declares
  it a \<open>number\<close>; the driver returns the column's text, which is why the rest of the code
  base reads such columns through \<open>parseFloat\<close>. \<open>toNumber\<close> is the conversion that the
  arithmetic and the mixed comparisons apply, \<open>truthy_value\<close> is the truthiness of
  \<open>x && ...\<close>, and \<open>js_lt\<close> and \<open>js_gt\<close> are the relational operators: two
  strings are compared as strings, anything else as numbers.
\<close>

datatype column_value = Num rat | Text decimal

fun toNumber :: "column_value \<Rightarrow> rat" where
  "toNumber (Num x) = x"
| "toNumber (Text d) = fl (decimal_value d)"

fun truthy_value :: "column_value option \<Rightarrow> bool" where
  "truthy_value None = False"
| "truthy_value (Some (Num x)) = (x \<noteq> 0)"
| "truthy_value (Some (Text d)) = (text_of d \<noteq> [])"

fun js_lt :: "column_value \<Rightarrow> column_value \<Rightarrow> bool" where
  "js_lt (Text a) (Text b) = text_lt (text_of a) (text_of b)"
| "js_lt x y = (toNumber x < toNumber y)"

definition js_gt :: "column_value \<Rightarrow> column_value \<Rightarrow> bool" where
  "js_gt x y = js_lt y x"

subsection \<open>Rows of the database tables\<close>

datatype tx_type = Deposit | Withdraw | Transfer | Subscription

text \<open>\<open>"wallet" | "card"\<close>: a transaction's \<open>source\<close> and a subscription's \<open>payment_method\<close>.\<close>

datatype funding = Wallet | Card

datatype period = Daily | Monthly | Yearly

text \<open>The decoded gateway payloads (\<open>DecodedPaymentData\<close>, \<open>DecodedCallbackData\<close>), with the
  fields the services read. \<open>cb_payment_id\<close> is \<open>String(decodedData.payment_id)\<close>.\<close>

record DecodedPaymentData =
  pd_order_id :: string
  pd_payment_status :: string
  pd_operation_status :: "string option"

record DecodedCallbackData =
  cb_payment_id :: string
  cb_order_id :: string
  cb_operation_status :: string
  cb_recurrent_token :: string
  cb_amount :: rat
  cb_payment_date :: string
  cb_pan_masked :: string

datatype payload = PaymentData DecodedPaymentData | CallbackData DecodedCallbackData

record transaction =
  tx_id :: nat
  tx_user_id :: nat
  tx_currency_id :: nat
  tx_amount :: rat
  tx_type :: tx_type
  tx_source :: funding
  tx_user_subscription_id :: "nat option"
  tx_bar_id :: "string option"
  tx_status :: "tx_status option"
  tx_order_id :: "string option"
  tx_payment_id :: "string option"
  tx_transaction_data :: "payload option"
  tx_subscription_plan_id :: "nat option"
  tx_subscription_price_id :: "nat option"

text \<open>\<open>platform_fees\<close>; the timestamp columns are left out.\<close>

record PlatformFee =
  fee_id :: nat
  fee_currency_id :: nat
  fee_percentage :: column_value
  min_fee_amount :: "column_value option"
  max_fee_amount :: "column_value option"
  is_active :: bool

record payment_token =
  tok_id :: nat
  tok_user_id :: nat
  tok_token :: string
  tok_expired_at :: "string option"
  tok_amount :: "rat option"
  tok_pan_masked :: "string option"
  tok_created_at :: nat

record UserSubscription =
  sub_id :: nat
  sub_user_id :: nat
  sub_subscription_plan_id :: nat
  sub_is_auto_renewal :: bool
  sub_payment_method :: funding
  sub_masked_pan :: "string option"
  sub_created_at :: nat
  sub_expired_at :: nat

record subscription_plan =
  plan_id :: nat
  plan_name :: string
  plan_period :: period

record subscription_plans_price =
  spp_id :: nat
  spp_subscription_plan_id :: nat
  spp_currency_id :: nat
  spp_price :: rat

subsection \<open>The gateway and the observable effects\<close>

text \<open>\<open>PaymentApiResponse\<close>: what the gateway answers to a charge request. The services
  test \<open>typeof success === "undefined"\<close> and the truthiness of the other fields.\<close>

record PaymentApiResponse =
  resp_data :: string
  resp_payment_id :: string
  resp_sign :: string
  resp_success :: "bool option"

datatype endpoint = PaymentCreate | PaymentRecurrent

text \<open>The body of a charge request, before \<open>JSON.stringify\<close> and base64: the recurring
  charge carries the token, the amount and \<open>Date.now()\<close> (its \<open>order_id\<close> is
  \<open>recurrent_\<close> followed by that time); the hosted checkout of a purchase and the one
  of a wallet deposit carry the amount, the e-mail, the transaction id of the redirect URLs
  and \<open>Date.now()\<close> (their \<open>order_id\<close> is \<open>pay_\<close> followed by that time).\<close>

datatype request_data =
    RecurrentRequest string rat nat
  | CreateRequest rat string nat nat
  | DepositRequest rat string nat nat

record request_body =
  req_data :: string
  req_sign :: string

text \<open>Every storage write and every gateway call, in program order. The log is written
  by the functions below and read by none of them.\<close>

datatype effect =
    InsertTransaction nat "tx_status option"
  | UpdateTransaction nat "tx_status option"
  | CreditBalance nat nat rat
  | DebitBalance nat nat rat
  | InsertToken nat
  | InsertSubscription nat
  | DisableAutoRenewal nat
  | GatewayCall endpoint request_body

subsection \<open>The database state\<close>

text \<open>
  \<open>now\<close> is the clock (\<open>Date.now()\<close>, \<open>NOW()\<close>). The \<open>_seq\<close> fields are the serial
  sequences behind \<open>returning("id")\<close>. \<open>gateway_responses\<close> holds what the gateway will
  answer to the coming requests, in order: \<open>None\<close> is a request that fails on the network
  (axios throws), and so is an exhausted list.
\<close>

record db =
  now :: nat
  currencies :: "nat list"
  users :: "nat list"
  balances :: "nat \<times> nat \<rightharpoonup> rat"
  transactions :: "transaction list"
  transactions_seq :: nat
  platform_fees :: "PlatformFee list"
  platform_fees_seq :: nat
  payment_tokens :: "payment_token list"
  payment_tokens_seq :: nat
  user_subscriptions :: "UserSubscription list"
  user_subscriptions_seq :: nat
  subscription_plans :: "subscription_plan list"
  subscription_plans_prices :: "subscription_plans_price list"
  gateway_responses :: "PaymentApiResponse option list"
  effects :: "effect list"

subsection \<open>Platform fees (fee.model.ts)\<close>

record FeeCalculationResult =
  originalAmount :: rat
  feeAmount :: rat
  finalAmount :: rat
  feePercentage :: column_value

definition getActiveFeeForCurrency :: "PlatformFee list \<Rightarrow> nat \<Rightarrow> PlatformFee option" where
  "getActiveFeeForCurrency fees currencyId =
     find (\<lambda>f. fee_currency_id f = currencyId \<and> is_active f) fees"

text \<open>\<open>Math.round(x * 100) / 100\<close>.\<close>

definition round2 :: "rat \<Rightarrow> rat" where
  "round2 x = fdiv (mathRound (fmul x 100)) 100"

text \<open>
  \<open>calculateFee\<close>. The variable \<open>feeAmount\<close> starts as a number; the two assignments
  \<open>feeAmount = fee.min_fee_amount\<close> and \<open>feeAmount = fee.max_fee_amount\<close> store the column's
  value as it is, so the test \<open>feeAmount > fee.max_fee_amount\<close> sees whatever the first
  assignment left.
\<close>

definition calculateFee :: "PlatformFee list \<Rightarrow> rat \<Rightarrow> nat \<Rightarrow> FeeCalculationResult" where
  "calculateFee fees amount currencyId =
     (case getActiveFeeForCurrency fees currencyId of
        None \<Rightarrow>
          \<lparr>originalAmount = amount, feeAmount = 0, finalAmount = amount,
           feePercentage = Num 0\<rparr>
      | Some fee \<Rightarrow>
          let feeAmount0 = Num (fdiv (fmul amount (toNumber (fee_percentage fee))) 100);
              feeAmount1 =
                (case min_fee_amount fee of
                   Some lo \<Rightarrow>
                     if truthy_value (Some lo) \<and> js_lt feeAmount0 lo then lo else feeAmount0
                 | None \<Rightarrow> feeAmount0);
              feeAmount2 =
                (case max_fee_amount fee of
                   Some hi \<Rightarrow>
                     if truthy_value (Some hi) \<and> js_gt feeAmount1 hi then hi else feeAmount1
                 | None \<Rightarrow> feeAmount1);
              feeAmount3 = round2 (toNumber feeAmount2)
          in \<lparr>originalAmount = amount, feeAmount = feeAmount3,
               finalAmount = round2 (fsub amount feeAmount3),
               feePercentage = fee_percentage fee\<rparr>)"

text \<open>The body of a create request, and the row that \<open>returning("*")\<close> gives back, hold
  each decimal as a \<open>column_value\<close>; the conversion between the number that is inserted
  and the text that the driver returns is the database's.\<close>

record feeData =
  fd_currency_id :: nat
  fd_fee_percentage :: column_value
  fd_min_fee_amount :: "column_value option"
  fd_max_fee_amount :: "column_value option"

text \<open>\<open>createPlatformFee\<close>: one database transaction that deactivates the active rows of
  the currency and inserts the new active row.\<close>

definition createPlatformFee :: "feeData \<Rightarrow> db \<Rightarrow> PlatformFee \<times> db" where
  "createPlatformFee feeData s =
     (let deactivated =
            map (\<lambda>f. if fee_currency_id f = fd_currency_id feeData \<and> is_active f
                      then f\<lparr>is_active := False\<rparr> else f) (platform_fees s);
          newFee = \<lparr>fee_id = platform_fees_seq s,
                    fee_currency_id = fd_currency_id feeData,
                    fee_percentage = fd_fee_percentage feeData,
                    min_fee_amount = fd_min_fee_amount feeData,
                    max_fee_amount = fd_max_fee_amount feeData,
                    is_active = True\<rparr>
      in (newFee, s\<lparr>platform_fees := deactivated @ [newFee],
                      platform_fees_seq := Suc (platform_fees_seq s)\<rparr>))"

text \<open>The \<open>updateData\<close> of \<open>updatePlatformFee\<close>: an absent key is \<open>None\<close>; for the two
  bounds \<open>Some None\<close> is an explicit \<open>null\<close>.\<close>

record feeUpdate =
  fu_fee_percentage :: "column_value option"
  fu_min_fee_amount :: "column_value option option"
  fu_max_fee_amount :: "column_value option option"
  fu_is_active :: "bool option"

definition applyFeeUpdate :: "feeUpdate \<Rightarrow> PlatformFee \<Rightarrow> PlatformFee" where
  "applyFeeUpdate u f =
     f\<lparr>fee_percentage := (case fu_fee_percentage u of Some p \<Rightarrow> p | None \<Rightarrow> fee_percentage f),
       min_fee_amount := (case fu_min_fee_amount u of Some m \<Rightarrow> m | None \<Rightarrow> min_fee_amount f),
       max_fee_amount := (case fu_max_fee_amount u of Some m \<Rightarrow> m | None \<Rightarrow> max_fee_amount f),
       is_active := (case fu_is_active u of Some a \<Rightarrow> a | None \<Rightarrow> is_active f)\<rparr>"

text \<open>\<open>updatePlatformFee\<close>: a single \<open>update ... where id = feeId returning *\<close>, outside
  any transaction; the result is the first updated row, or \<open>null\<close>.\<close>

definition updatePlatformFee :: "nat \<Rightarrow> feeUpdate \<Rightarrow> db \<Rightarrow> PlatformFee option \<times> db" where
  "updatePlatformFee feeId updateData s =
     (let updated =
            map (\<lambda>f. if fee_id f = feeId then applyFeeUpdate updateData f else f)
              (platform_fees s)
      in (find (\<lambda>f. fee_id f = feeId) updated, s\<lparr>platform_fees := updated\<rparr>))"

text \<open>The invariant of the fee table: the active rows of one currency are at most one.\<close>

definition active_fees :: "PlatformFee list \<Rightarrow> nat \<Rightarrow> PlatformFee list" where
  "active_fees fees c = filter (\<lambda>f. fee_currency_id f = c \<and> is_active f) fees"

definition one_active_per_currency :: "PlatformFee list \<Rightarrow> bool" where
  "one_active_per_currency fees =
     list_all (\<lambda>c. length (active_fees fees c) \<le> 1) (map fee_currency_id fees)"

subsection \<open>Transactions (payment.model.ts)\<close>

record CreateTransactionParams =
  p_userId :: nat
  p_currencyId :: nat
  p_amount :: rat
  p_type :: tx_type
  p_source :: funding
  p_userSubscriptionId :: "nat option"
  p_barId :: "string option"
  p_status :: "tx_status option"
  p_orderId :: "string option"
  p_paymentId :: "string option"
  p_transactionData :: "payload option"
  p_subscriptionPlanId :: "nat option"
  p_subscriptionPriceId :: "nat option"

text \<open>The parameter object with the keys every caller gives; the other keys are absent
  until a caller adds them with a record update.\<close>

definition tx_params ::
  "nat \<Rightarrow> nat \<Rightarrow> rat \<Rightarrow> tx_type \<Rightarrow> funding \<Rightarrow> tx_status \<Rightarrow> CreateTransactionParams" where
  "tx_params userId currencyId amount type source status =
     \<lparr>p_userId = userId, p_currencyId = currencyId, p_amount = amount, p_type = type,
      p_source = source, p_userSubscriptionId = None, p_barId = None, p_status = Some status,
      p_orderId = None, p_paymentId = None, p_transactionData = None,
      p_subscriptionPlanId = None, p_subscriptionPriceId = None\<rparr>"

definition createTransaction :: "CreateTransactionParams \<Rightarrow> db \<Rightarrow> nat \<times> db" where
  "createTransaction p s =
     (let tid = transactions_seq s;
          row = \<lparr>tx_id = tid, tx_user_id = p_userId p, tx_currency_id = p_currencyId p,
                 tx_amount = p_amount p, tx_type = p_type p, tx_source = p_source p,
                 tx_user_subscription_id = p_userSubscriptionId p, tx_bar_id = p_barId p,
                 tx_status = p_status p, tx_order_id = p_orderId p,
                 tx_payment_id = p_paymentId p, tx_transaction_data = p_transactionData p,
                 tx_subscription_plan_id = p_subscriptionPlanId p,
                 tx_subscription_price_id = p_subscriptionPriceId p\<rparr>
      in (tid, s\<lparr>transactions := transactions s @ [row],
                  transactions_seq := Suc tid,
                  effects := effects s @ [InsertTransaction tid (p_status p)]\<rparr>))"

text \<open>The \<open>Partial<CreateTransactionParams>\<close> of \<open>updateTransaction\<close>, with the five keys
  that the callers pass; a key that is \<open>undefined\<close> leaves its column as it is.\<close>

record UpdateTransactionParams =
  u_orderId :: "string option"
  u_paymentId :: "string option"
  u_status :: "tx_status option"
  u_transactionData :: "payload option"
  u_userSubscriptionId :: "nat option"

definition applyUpdate :: "UpdateTransactionParams \<Rightarrow> transaction \<Rightarrow> transaction" where
  "applyUpdate u t =
     t\<lparr>tx_user_subscription_id :=
         (case u_userSubscriptionId u of Some v \<Rightarrow> Some v | None \<Rightarrow> tx_user_subscription_id t),
       tx_status := (case u_status u of Some v \<Rightarrow> Some v | None \<Rightarrow> tx_status t),
       tx_order_id := (case u_orderId u of Some v \<Rightarrow> Some v | None \<Rightarrow> tx_order_id t),
       tx_payment_id := (case u_paymentId u of Some v \<Rightarrow> Some v | None \<Rightarrow> tx_payment_id t),
       tx_transaction_data :=
         (case u_transactionData u of Some v \<Rightarrow> Some v | None \<Rightarrow> tx_transaction_data t)\<rparr>"

definition updateTransaction :: "nat \<Rightarrow> UpdateTransactionParams \<Rightarrow> db \<Rightarrow> db" where
  "updateTransaction tid u s =
     s\<lparr>transactions := map (\<lambda>t. if tx_id t = tid then applyUpdate u t else t) (transactions s),
       effects := effects s @ [UpdateTransaction tid (u_status u)]\<rparr>"

definition getTransactionByOrderId :: "db \<Rightarrow> string \<Rightarrow> transaction option" where
  "getTransactionByOrderId s orderId =
     find (\<lambda>t. tx_order_id t = Some orderId) (transactions s)"

definition hasUserPurchasedBar :: "db \<Rightarrow> nat \<Rightarrow> string \<Rightarrow> bool" where
  "hasUserPurchasedBar s userId barId =
     list_ex (\<lambda>t. tx_user_id t = userId \<and> tx_bar_id t = Some barId
                 \<and> tx_status t = Some Completed \<and> tx_type t \<noteq> Subscription) (transactions s)"

subsection \<open>Payment tokens (token.model.ts)\<close>

record CreateTokenBody =
  ct_userId :: nat
  ct_token :: string
  ct_expired_at :: string
  ct_amount :: rat
  ct_pan_masked :: string

definition createToken :: "CreateTokenBody \<Rightarrow> db \<Rightarrow> payment_token \<times> db" where
  "createToken body s =
     (let newToken = \<lparr>tok_id = payment_tokens_seq s, tok_user_id = ct_userId body,
                      tok_token = ct_token body,
                      tok_expired_at =
                        (if truthy_str (ct_expired_at body) then Some (ct_expired_at body)
                         else None),
                      tok_amount = Some (ct_amount body),
                      tok_pan_masked = Some (ct_pan_masked body),
                      tok_created_at = now s\<rparr>
      in (newToken, s\<lparr>payment_tokens := payment_tokens s @ [newToken],
                       payment_tokens_seq := Suc (payment_tokens_seq s),
                       effects := effects s @ [InsertToken (payment_tokens_seq s)]\<rparr>))"

definition getPaymentTokenById :: "db \<Rightarrow> nat \<Rightarrow> nat \<Rightarrow> payment_token option" where
  "getPaymentTokenById s tokenId userId =
     find (\<lambda>t. tok_id t = tokenId \<and> tok_user_id t = userId) (payment_tokens s)"

subsection \<open>Wallet (wallet.model.ts)\<close>

text \<open>\<open>getUserBalanceByCurrency\<close> joins the balance row with its currency.\<close>

definition getUserBalanceByCurrency :: "db \<Rightarrow> nat \<Rightarrow> nat \<Rightarrow> rat option" where
  "getUserBalanceByCurrency s userId currencyId =
     (if currencyId \<in> set (currencies s) then balances s (userId, currencyId) else None)"

text \<open>\<open>createUserWallet\<close>: for each currency, \<open>insert ... onConflict(...).ignore()\<close>.\<close>

definition createUserWallet :: "nat \<Rightarrow> db \<Rightarrow> db" where
  "createUserWallet userId s =
     s\<lparr>balances :=
         fold (\<lambda>c b. if b (userId, c) = None then b((userId, c) \<mapsto> 0) else b)
           (currencies s) (balances s)\<rparr>"

definition depositUserWallet :: "nat \<Rightarrow> nat \<Rightarrow> rat \<Rightarrow> db \<Rightarrow> db" where
  "depositUserWallet userId currencyId amount s =
     (case balances s (userId, currencyId) of
        Some existingBalance \<Rightarrow>
          s\<lparr>balances := (balances s)((userId, currencyId) \<mapsto> existingBalance + amount),
            effects := effects s @ [CreditBalance userId currencyId amount]\<rparr>
      | None \<Rightarrow>
          s\<lparr>balances := (balances s)((userId, currencyId) \<mapsto> amount),
            effects := effects s @ [CreditBalance userId currencyId amount]\<rparr>)"

text \<open>\<open>checkUserBalance\<close> returns \<open>(hasEnoughBalance, currentBalance)\<close>.\<close>

definition checkUserBalance :: "db \<Rightarrow> nat \<Rightarrow> nat \<Rightarrow> rat \<Rightarrow> bool \<times> rat" where
  "checkUserBalance s userId currencyId requiredAmount =
     (case getUserBalanceByCurrency s userId currencyId of
        None \<Rightarrow> (False, 0)
      | Some balance \<Rightarrow> (balance \<ge> requiredAmount, balance))"

text \<open>The \<open>error\<close> of a failed deduction; \<open>Insufficient current required\<close> is the
  "Insufficient balance" message with its two numbers. A successful deduction returns the id
  of the transaction row (\<open>Inr\<close>).\<close>

datatype deduct_error = BalanceNotFound | Insufficient rat rat

text \<open>The body of \<open>db.transaction\<close> shared by the two deductions: read the balance row,
  compare, decrement, insert the completed transaction row.\<close>

definition deduct ::
  "nat \<Rightarrow> nat \<Rightarrow> rat \<Rightarrow> tx_type \<Rightarrow> string option \<Rightarrow> nat option \<Rightarrow> db \<Rightarrow> (deduct_error + nat) \<times> db"
  where
  "deduct userId currencyId amount type barId userSubscriptionId s =
     (case balances s (userId, currencyId) of
        None \<Rightarrow> (Inl BalanceNotFound, s)
      | Some currentBalance \<Rightarrow>
          if currentBalance < amount then (Inl (Insufficient currentBalance amount), s)
          else
            let tid = transactions_seq s;
                row = \<lparr>tx_id = tid, tx_user_id = userId, tx_currency_id = currencyId,
                       tx_amount = amount, tx_type = type, tx_source = Wallet,
                       tx_user_subscription_id = userSubscriptionId, tx_bar_id = barId,
                       tx_status = Some Completed, tx_order_id = None, tx_payment_id = None,
                       tx_transaction_data = None, tx_subscription_plan_id = None,
                       tx_subscription_price_id = None\<rparr>
            in (Inr tid,
                s\<lparr>balances := (balances s)((userId, currencyId) \<mapsto> currentBalance - amount),
                  transactions := transactions s @ [row],
                  transactions_seq := Suc tid,
                  effects := effects s @ [DebitBalance userId currencyId amount,
                                          InsertTransaction tid (Some Completed)]\<rparr>))"

text \<open>\<open>bar_id: barId || null\<close>.\<close>

definition deductUserWallet ::
  "nat \<Rightarrow> nat \<Rightarrow> rat \<Rightarrow> string option \<Rightarrow> db \<Rightarrow> (deduct_error + nat) \<times> db" where
  "deductUserWallet userId currencyId amount barId s =
     deduct userId currencyId amount Withdraw
       (case barId of Some b \<Rightarrow> if truthy_str b then Some b else None | None \<Rightarrow> None) None s"

definition deductUserWalletForSubscription ::
  "nat \<Rightarrow> nat \<Rightarrow> rat \<Rightarrow> nat \<Rightarrow> db \<Rightarrow> (deduct_error + nat) \<times> db" where
  "deductUserWalletForSubscription userId currencyId amount userSubscriptionId s =
     deduct userId currencyId amount Subscription None (Some userSubscriptionId) s"

text \<open>A sequence of \<open>deductUserWallet\<close> calls against one account, one after the other,
  with the result of each call.\<close>

fun debit_sequence ::
  "nat \<Rightarrow> nat \<Rightarrow> rat list \<Rightarrow> db \<Rightarrow> (deduct_error + nat) list \<times> db" where
  "debit_sequence userId currencyId [] s = ([], s)"
| "debit_sequence userId currencyId (a # as) s =
     (let (r, s1) = deductUserWallet userId currencyId a None s;
          (rs, s2) = debit_sequence userId currencyId as s1
      in (r # rs, s2))"

text \<open>The spec's account of such a sequence from a starting balance \<open>B\<close>: a call succeeds
  exactly when the sum of the amounts accepted before it plus its own does not exceed \<open>B\<close>.\<close>

fun spec_accepts :: "rat \<Rightarrow> rat \<Rightarrow> rat list \<Rightarrow> bool list" where
  "spec_accepts B spent [] = []"
| "spec_accepts B spent (a # as) =
     (if spent + a \<le> B then True # spec_accepts B (spent + a) as
      else False # spec_accepts B spent as)"

fun spec_spent :: "rat \<Rightarrow> rat \<Rightarrow> rat list \<Rightarrow> rat" where
  "spec_spent B spent [] = spent"
| "spec_spent B spent (a # as) =
     (if spent + a \<le> B then spec_spent B (spent + a) as else spec_spent B spent as)"

text \<open>Every balance row is at least zero.\<close>

definition balances_nonneg :: "db \<Rightarrow> bool" where
  "balances_nonneg s = (\<forall>k v. balances s k = Some v \<longrightarrow> 0 \<le> v)"

text \<open>The post-state of a successful deduction of \<open>a\<close> from the balance \<open>cur\<close>, with the
  inserted transaction row, and what the claim says of that row.\<close>

definition debited :: "db \<Rightarrow> nat \<Rightarrow> nat \<Rightarrow> rat \<Rightarrow> rat \<Rightarrow> transaction \<Rightarrow> db" where
  "debited s u c cur a row =
     s\<lparr>balances := (balances s)((u, c) \<mapsto> cur - a),
       transactions := transactions s @ [row],
       transactions_seq := Suc (transactions_seq s),
       effects := effects s @ [DebitBalance u c a, InsertTransaction (tx_id row) (tx_status row)]\<rparr>"

definition ledger_row :: "transaction \<Rightarrow> nat \<Rightarrow> nat \<Rightarrow> nat \<Rightarrow> rat \<Rightarrow> tx_type \<Rightarrow> bool" where
  "ledger_row row tid u c a ty =
     (tx_id row = tid \<and> tx_user_id row = u \<and> tx_currency_id row = c \<and> tx_amount row = a
      \<and> tx_type row = ty \<and> tx_source row = Wallet \<and> tx_status row = Some Completed)"

subsection \<open>What lies outside the repository\<close>

text \<open>\<open>SubscriptionConfig\<close>: the gateway configuration read from the process environment;
  a variable that is not set is the empty string.\<close>

record SubscriptionConfig =
  secretKey :: string
  apiKey :: string
  apiUrl :: string
  kornerApiUrl :: string
  kornerUrl :: string
  merchantId :: string
  serviceId :: string

text \<open>\<open>BarData\<close> and \<open>ProfileData\<close> of the main service.\<close>

record monetized_details =
  md_price :: "rat option"
  md_currencyCode :: "string option"

record BarData =
  bar_profile_id :: string
  bar_is_monetized :: bool
  bar_monetized_details :: "monetized_details option"

record ProfileData =
  profile_user_id :: nat

text \<open>
  The libraries and the collaborating service, as parameters of the model:
  \<open>hmac_sha512 key data\<close> is \<open>createHmac("sha512", key).update(data).digest("hex")\<close>;
  \<open>encode\<close> is \<open>JSON.stringify\<close> followed by base64; \<open>decodePayment\<close> and
  \<open>decodeCallback\<close> are \<open>JSON.parse(Buffer.from(data, "base64").toString("utf-8"))\<close>, \<open>None\<close>
  when \<open>JSON.parse\<close> throws; the three lookups are the main-service client, which returns
  \<open>null\<close> on any failure; \<open>plus_interval\<close> is SQL's \<open>NOW() + INTERVAL\<close> of a plan period
  and \<open>months_before\<close> is \<open>NOW() - INTERVAL 'n months'\<close>.
\<close>

record env =
  config :: SubscriptionConfig
  hmac_sha512 :: "string \<Rightarrow> string \<Rightarrow> string"
  encode :: "request_data \<Rightarrow> string"
  decodePayment :: "string \<Rightarrow> DecodedPaymentData option"
  decodeCallback :: "string \<Rightarrow> DecodedCallbackData option"
  getBarById :: "string \<Rightarrow> BarData option"
  getProfileById :: "string \<Rightarrow> ProfileData option"
  getUserIdByProfileId :: "string \<Rightarrow> nat option"
  plus_interval :: "nat \<Rightarrow> period \<Rightarrow> nat"
  months_before :: "nat \<Rightarrow> nat \<Rightarrow> nat"

subsection \<open>Errors\<close>

text \<open>The exceptions the services throw, one constructor per message; \<open>statusCode\<close> is the
  property attached with \<open>Object.assign\<close>, absent on a plain \<open>Error\<close>.
  \<open>GatewayRequestFailed\<close> is axios rejecting; \<open>InvalidJson\<close> is \<open>JSON.parse\<close> throwing
  outside a \<open>try\<close>.\<close>

datatype error =
    MissingRequiredFields
  | BarNotFound
  | BarNotMonetized
  | OwnerSubscriptionInactive
  | MonetizationIncomplete
  | AlreadyPurchased
  | TokenIdRequired
  | InsufficientBalance rat rat
  | FailedToDeductBalance deduct_error
  | FailedToCreateTransaction
  | PaymentTokenNotFound
  | MissingEnvironmentVariables
  | GatewayRequestFailed
  | InvalidApiResponse
  | InvalidResponseSignature
  | InvalidJson
  | InvalidPaymentType
  | InvalidDataFormat
  | TransactionNotFound
  | SubscriptionPlanNotFound nat
  | UserNotFound nat

fun statusCode :: "error \<Rightarrow> nat option" where
  "statusCode MissingRequiredFields = Some 400"
| "statusCode BarNotFound = Some 404"
| "statusCode BarNotMonetized = Some 400"
| "statusCode OwnerSubscriptionInactive = Some 403"
| "statusCode MonetizationIncomplete = Some 400"
| "statusCode AlreadyPurchased = Some 400"
| "statusCode TokenIdRequired = Some 400"
| "statusCode (InsufficientBalance cur req) = Some 400"
| "statusCode PaymentTokenNotFound = Some 404"
| "statusCode InvalidPaymentType = Some 400"
| "statusCode InvalidDataFormat = Some 400"
| "statusCode TransactionNotFound = Some 404"
| "statusCode e = None"

subsection \<open>Gateway protocol (utils/payment.ts, utils/subscription.ts, utils/wallet.ts)\<close>

definition signedBody :: "env \<Rightarrow> request_data \<Rightarrow> request_body" where
  "signedBody e dataObject =
     (let dataBase64 = encode e dataObject
      in \<lparr>req_data = dataBase64,
          req_sign = hmac_sha512 e (secretKey (config e)) dataBase64\<rparr>)"

definition createPaymentRecurrentRequestBody ::
  "env \<Rightarrow> db \<Rightarrow> string \<Rightarrow> rat \<Rightarrow> request_body" where
  "createPaymentRecurrentRequestBody e s token amount =
     signedBody e (RecurrentRequest token amount (now s))"

definition createPaymentRequestBody ::
  "env \<Rightarrow> db \<Rightarrow> rat \<Rightarrow> string \<Rightarrow> nat \<Rightarrow> request_body" where
  "createPaymentRequestBody e s amount email transactionId =
     signedBody e (CreateRequest amount email transactionId (now s))"

definition createDepositPaymentRequest ::
  "env \<Rightarrow> db \<Rightarrow> rat \<Rightarrow> string \<Rightarrow> nat \<Rightarrow> request_body" where
  "createDepositPaymentRequest e s amount email transactionId =
     signedBody e (DepositRequest amount email transactionId (now s))"

text \<open>\<open>verifyResponseSignature\<close> throws when the recomputed HMAC differs from \<open>sign\<close>.\<close>

definition verifyResponseSignature :: "env \<Rightarrow> string \<Rightarrow> string \<Rightarrow> string \<Rightarrow> error + unit" where
  "verifyResponseSignature e data sign key =
     (let calculatedSign = hmac_sha512 e key data
      in if calculatedSign \<noteq> sign then Inl InvalidResponseSignature else Inr ())"

text \<open>\<open>axios.post\<close> to the gateway: the call is logged, and the next prepared answer is
  taken.\<close>

definition sendRequest :: "endpoint \<Rightarrow> request_body \<Rightarrow> db \<Rightarrow> (error + PaymentApiResponse) \<times> db" where
  "sendRequest ep body s =
     (let s1 = s\<lparr>effects := effects s @ [GatewayCall ep body]\<rparr>
      in case gateway_responses s of
           [] \<Rightarrow> (Inl GatewayRequestFailed, s1)
         | None # rest \<Rightarrow> (Inl GatewayRequestFailed, s1\<lparr>gateway_responses := rest\<rparr>)
         | Some r # rest \<Rightarrow> (Inr r, s1\<lparr>gateway_responses := rest\<rparr>))"

definition sendPaymentCreateRequest :: "request_body \<Rightarrow> db \<Rightarrow> (error + PaymentApiResponse) \<times> db" where
  "sendPaymentCreateRequest body s = sendRequest PaymentCreate body s"

definition sendPaymentRecurrentRequest :: "request_body \<Rightarrow> db \<Rightarrow> (error + PaymentApiResponse) \<times> db" where
  "sendPaymentRecurrentRequest body s = sendRequest PaymentRecurrent body s"

text \<open>
  The block that follows every charge request in the services: the check for missing
  fields of the response, \<open>verifyResponseSignature\<close>, then \<open>JSON.parse\<close> of the decoded
  data.
\<close>

definition verifiedPaymentData :: "env \<Rightarrow> PaymentApiResponse \<Rightarrow> error + DecodedPaymentData" where
  "verifiedPaymentData e r =
     (if resp_success r = None \<or> \<not> truthy_str (resp_data r) \<or> \<not> truthy_str (resp_payment_id r)
         \<or> \<not> truthy_str (resp_sign r)
      then Inl InvalidApiResponse
      else case verifyResponseSignature e (resp_data r) (resp_sign r) (secretKey (config e)) of
             Inl err \<Rightarrow> Inl err
           | Inr _ \<Rightarrow>
               (case decodePayment e (resp_data r) of
                  None \<Rightarrow> Inl InvalidJson
                | Some decodedData \<Rightarrow> Inr decodedData))"

text \<open>\<open>isPaymentSuccessful\<close> of the token paths.\<close>

definition isPaymentSuccessful :: "PaymentApiResponse \<Rightarrow> DecodedPaymentData \<Rightarrow> bool" where
  "isPaymentSuccessful r d =
     (resp_success r = Some True
      \<and> (pd_payment_status d = ''success'' \<or> pd_payment_status d = ''withdraw''
         \<or> pd_operation_status d = Some ''success''))"

subsection \<open>Subscriptions (subscription.model.ts)\<close>

text \<open>\<open>createSubscription\<close>: one database transaction; it throws when the plan or the user
  does not exist.\<close>

definition createSubscription ::
  "env \<Rightarrow> nat \<Rightarrow> nat \<Rightarrow> bool \<Rightarrow> funding \<Rightarrow> string option \<Rightarrow> db \<Rightarrow> (error + UserSubscription) \<times> db"
  where
  "createSubscription e userId subscriptionPlanId isAutoRenewal paymentMethod maskedPan s =
     (case find (\<lambda>p. plan_id p = subscriptionPlanId) (subscription_plans s) of
        None \<Rightarrow> (Inl (SubscriptionPlanNotFound subscriptionPlanId), s)
      | Some subscriptionPlan \<Rightarrow>
          if userId \<notin> set (users s) then (Inl (UserNotFound userId), s)
          else
            let newSubscription =
                  \<lparr>sub_id = user_subscriptions_seq s, sub_user_id = userId,
                   sub_subscription_plan_id = subscriptionPlanId,
                   sub_is_auto_renewal = isAutoRenewal, sub_payment_method = paymentMethod,
                   sub_masked_pan = maskedPan, sub_created_at = now s,
                   sub_expired_at = plus_interval e (now s) (plan_period subscriptionPlan)\<rparr>
            in (Inr newSubscription,
                s\<lparr>user_subscriptions := user_subscriptions s @ [newSubscription],
                  user_subscriptions_seq := Suc (user_subscriptions_seq s),
                  effects := effects s @ [InsertSubscription (user_subscriptions_seq s)]\<rparr>))"

text \<open>\<open>getActiveSubscriptionInfo(userId).hasActiveSubscription\<close>.\<close>

definition hasActiveSubscription :: "db \<Rightarrow> nat \<Rightarrow> bool" where
  "hasActiveSubscription s userId =
     list_ex (\<lambda>us. sub_user_id us = userId \<and> sub_expired_at us > now s
                  \<and> list_ex (\<lambda>sp. plan_id sp = sub_subscription_plan_id us) (subscription_plans s))
       (user_subscriptions s)"

text \<open>\<open>getSubscriptionInfoByTransactionId\<close>, reduced to the \<open>plan_id\<close> that the callback
  reads: the transaction joined with its plan, its price and the price's currency.\<close>

definition getSubscriptionInfoByTransactionId :: "db \<Rightarrow> nat \<Rightarrow> nat option" where
  "getSubscriptionInfoByTransactionId s transactionId =
     (case find (\<lambda>t. tx_id t = transactionId
                    \<and> list_ex (\<lambda>sp. Some (plan_id sp) = tx_subscription_plan_id t)
                         (subscription_plans s)
                    \<and> list_ex (\<lambda>spp. Some (spp_id spp) = tx_subscription_price_id t
                                     \<and> spp_currency_id spp \<in> set (currencies s))
                         (subscription_plans_prices s))
             (transactions s) of
        None \<Rightarrow> None
      | Some t \<Rightarrow> tx_subscription_plan_id t)"

subsection \<open>Payment service (modules/payment/payment.service.ts)\<close>

text \<open>\<open>payment_type\<close>: the three known strings, or any other string (\<open>OtherKind []\<close> is a
  missing one).\<close>

datatype payment_kind = ByWallet | ByToken | ByCard | OtherKind string

text \<open>\<open>CreatePaymentBody\<close>; the two redirect URLs only enter the request body and are left
  out.\<close>

record CreatePaymentBody =
  cp_email :: string
  cp_payment_type :: payment_kind
  cp_currency_id :: "nat option"
  cp_token_id :: "nat option"
  cp_bar_id :: string

text \<open>What \<open>createPayment\<close> returns: for a wallet purchase the transaction id, the amount
  deducted and the remaining balance; for a token or card purchase the success flag, the
  gateway's payment id and the decoded data.\<close>

datatype payment_result =
    WalletPayment nat rat rat
  | TokenPayment bool string DecodedPaymentData
  | CardPayment bool string DecodedPaymentData

text \<open>
  The \<open>try\<close> block that credits the owner of a purchased bar, which the wallet path, the
  token path and the callback each contain: look the owner's profile up, compute the fee,
  deposit \<open>finalAmount\<close> to the owner and insert the owner's completed deposit row.
\<close>

definition creditBarOwner ::
  "env \<Rightarrow> string \<Rightarrow> rat \<Rightarrow> nat \<Rightarrow> string \<Rightarrow> funding \<Rightarrow> string option \<Rightarrow> string option \<Rightarrow> db \<Rightarrow> db"
  where
  "creditBarOwner e profileId amount currencyId barId source orderId paymentId s =
     (case getProfileById e profileId of
        None \<Rightarrow> s
      | Some barOwnerProfile \<Rightarrow>
          let feeCalculation = calculateFee (platform_fees s) amount currencyId;
              ownerAmount = finalAmount feeCalculation;
              s1 = depositUserWallet (profile_user_id barOwnerProfile) currencyId ownerAmount s
          in snd (createTransaction
                    ((tx_params (profile_user_id barOwnerProfile) currencyId ownerAmount
                        Deposit source Completed)
                       \<lparr>p_barId := Some barId, p_orderId := orderId, p_paymentId := paymentId\<rparr>)
                    s1))"

text \<open>The precondition checks of \<open>createPayment\<close>, up to the creation of the transaction;
  they read and do not write. The result is the bar and its price.\<close>

definition validatePurchase ::
  "env \<Rightarrow> db \<Rightarrow> nat \<Rightarrow> CreatePaymentBody \<Rightarrow> error + BarData \<times> rat" where
  "validatePurchase e s userId body =
     (if cp_payment_type body = OtherKind [] \<or> \<not> truthy_str (cp_email body)
         \<or> \<not> truthy_str (cp_bar_id body)
      then Inl MissingRequiredFields
      else case getBarById e (cp_bar_id body) of
        None \<Rightarrow> Inl BarNotFound
      | Some bar \<Rightarrow>
          if \<not> bar_is_monetized bar then Inl BarNotMonetized
          else if \<not> (case getUserIdByProfileId e (bar_profile_id bar) of
                       None \<Rightarrow> False
                     | Some ownerId \<Rightarrow> ownerId \<noteq> 0 \<and> hasActiveSubscription s ownerId)
          then Inl OwnerSubscriptionInactive
          else case bar_monetized_details bar of
            None \<Rightarrow> Inl MonetizationIncomplete
          | Some monetizedDetails \<Rightarrow>
              (case (md_price monetizedDetails, md_currencyCode monetizedDetails) of
                 (Some price, Some currencyCode) \<Rightarrow>
                   if price = 0 \<or> \<not> truthy_str currencyCode then Inl MonetizationIncomplete
                   else if hasUserPurchasedBar s userId (cp_bar_id body) then Inl AlreadyPurchased
                   else if cp_payment_type body = ByToken \<and> \<not> truthy_id (cp_token_id body)
                   then Inl TokenIdRequired
                   else Inr (bar, price)
               | _ \<Rightarrow> Inl MonetizationIncomplete))"

text \<open>\<open>case "wallet"\<close>; \<open>amount\<close> is the source's \<open>finalAmount\<close>, the price of the bar.\<close>

definition payWithWallet ::
  "env \<Rightarrow> nat \<Rightarrow> CreatePaymentBody \<Rightarrow> BarData \<Rightarrow> rat \<Rightarrow> nat \<Rightarrow> db \<Rightarrow> (error + payment_result) \<times> db"
  where
  "payWithWallet e userId body bar amount finalCurrencyId s =
     (case checkUserBalance s userId finalCurrencyId amount of
        (hasEnoughBalance, currentBalance) \<Rightarrow>
          if \<not> hasEnoughBalance then (Inl (InsufficientBalance currentBalance amount), s)
          else case deductUserWallet userId finalCurrencyId amount (Some (cp_bar_id body)) s of
            (Inl err, s1) \<Rightarrow> (Inl (FailedToDeductBalance err), s1)
          | (Inr transactionId, s1) \<Rightarrow>
              (Inr (WalletPayment transactionId amount (currentBalance - amount)),
               creditBarOwner e (bar_profile_id bar) amount finalCurrencyId (cp_bar_id body)
                 Wallet None None s1))"

text \<open>\<open>case "token"\<close>. \<open>transactionId\<close> is \<open>None\<close> when no pending transaction was
  created.\<close>

definition payWithToken ::
  "env \<Rightarrow> nat \<Rightarrow> CreatePaymentBody \<Rightarrow> BarData \<Rightarrow> rat \<Rightarrow> nat \<Rightarrow> nat option \<Rightarrow> db
     \<Rightarrow> (error + payment_result) \<times> db"
  where
  "payWithToken e userId body bar amount finalCurrencyId transactionId s =
     (if \<not> truthy_id transactionId then (Inl FailedToCreateTransaction, s)
      else case getPaymentTokenById s (case cp_token_id body of Some t \<Rightarrow> t | None \<Rightarrow> 0) userId of
        None \<Rightarrow> (Inl PaymentTokenNotFound, s)
      | Some paymentToken \<Rightarrow>
          if \<not> truthy_str (secretKey (config e)) \<or> \<not> truthy_str (apiKey (config e))
             \<or> \<not> truthy_str (apiUrl (config e))
          then (Inl MissingEnvironmentVariables, s)
          else
            case sendPaymentRecurrentRequest
                   (createPaymentRecurrentRequestBody e s (tok_token paymentToken) amount) s of
              (Inl err, s1) \<Rightarrow> (Inl err, s1)
            | (Inr responseToken, s1) \<Rightarrow>
                (case verifiedPaymentData e responseToken of
                   Inl err \<Rightarrow> (Inl err, s1)
                 | Inr decodedDataToken \<Rightarrow>
                     let ok = isPaymentSuccessful responseToken decodedDataToken;
                         s2 = updateTransaction (case transactionId of Some t \<Rightarrow> t | None \<Rightarrow> 0)
                                \<lparr>u_orderId = Some (pd_order_id decodedDataToken),
                                 u_paymentId = Some (resp_payment_id responseToken),
                                 u_status =
                                   Some (if ok then Completed
                                         else mapPaymentStatus
                                                (Some (pd_payment_status decodedDataToken))),
                                 u_transactionData = Some (PaymentData decodedDataToken),
                                 u_userSubscriptionId = None\<rparr> s1;
                         s3 = (if ok
                               then creditBarOwner e (bar_profile_id bar) amount
                                      finalCurrencyId (cp_bar_id body) Card
                                      (Some (pd_order_id decodedDataToken))
                                      (Some (resp_payment_id responseToken)) s2
                               else s2)
                     in (Inr (TokenPayment ok (resp_payment_id responseToken) decodedDataToken),
                         s3)))"

text \<open>\<open>case "card"\<close>.\<close>

definition payWithCard ::
  "env \<Rightarrow> nat \<Rightarrow> CreatePaymentBody \<Rightarrow> rat \<Rightarrow> nat option \<Rightarrow> db \<Rightarrow> (error + payment_result) \<times> db"
  where
  "payWithCard e userId body amount transactionId s =
     (if \<not> truthy_id transactionId then (Inl FailedToCreateTransaction, s)
      else if \<not> truthy_str (secretKey (config e)) \<or> \<not> truthy_str (apiKey (config e))
              \<or> \<not> truthy_str (apiUrl (config e)) \<or> \<not> truthy_str (kornerUrl (config e))
              \<or> \<not> truthy_str (merchantId (config e)) \<or> \<not> truthy_str (serviceId (config e))
      then (Inl MissingEnvironmentVariables, s)
      else
        case sendPaymentCreateRequest
               (createPaymentRequestBody e s amount (cp_email body)
                  (case transactionId of Some t \<Rightarrow> t | None \<Rightarrow> 0)) s of
          (Inl err, s1) \<Rightarrow> (Inl err, s1)
        | (Inr response, s1) \<Rightarrow>
            (case verifiedPaymentData e response of
               Inl err \<Rightarrow> (Inl err, s1)
             | Inr decodedData \<Rightarrow>
                 (Inr (CardPayment (resp_success response = Some True)
                         (resp_payment_id response) decodedData),
                  updateTransaction (case transactionId of Some t \<Rightarrow> t | None \<Rightarrow> 0)
                    \<lparr>u_orderId = Some (pd_order_id decodedData),
                     u_paymentId = Some (resp_payment_id response),
                     u_status = Some (mapPaymentStatus (Some (pd_payment_status decodedData))),
                     u_transactionData = Some (PaymentData decodedData),
                     u_userSubscriptionId = None\<rparr> s1)))"

text \<open>\<open>paymentService.createPayment\<close>: the checks, the pending transaction for every
  payment type but \<open>wallet\<close>, then the \<open>switch\<close>.\<close>

definition createPayment ::
  "env \<Rightarrow> nat \<Rightarrow> CreatePaymentBody \<Rightarrow> db \<Rightarrow> (error + payment_result) \<times> db" where
  "createPayment e userId body s =
     (case validatePurchase e s userId body of
        Inl err \<Rightarrow> (Inl err, s)
      | Inr (bar, price) \<Rightarrow>
          let finalCurrencyId = (case cp_currency_id body of Some c \<Rightarrow> c | None \<Rightarrow> 1);
              (transactionId, s1) =
                (if cp_payment_type body \<noteq> ByWallet
                 then (case createTransaction
                              ((tx_params userId finalCurrencyId price Withdraw Card Pending)
                                 \<lparr>p_barId := Some (cp_bar_id body)\<rparr>) s of
                         (tid, s') \<Rightarrow> (Some tid, s'))
                 else (None, s))
          in case cp_payment_type body of
               ByWallet \<Rightarrow> payWithWallet e userId body bar price finalCurrencyId s1
             | ByToken \<Rightarrow>
                 payWithToken e userId body bar price finalCurrencyId transactionId s1
             | ByCard \<Rightarrow> payWithCard e userId body price transactionId s1
             | OtherKind k \<Rightarrow> (Inl InvalidPaymentType, s1))"

text \<open>The head of every webhook callback: \<open>JSON.parse\<close> inside a \<open>try\<close>, then
  \<open>verifyResponseSignature\<close>, then the lookup of the transaction by \<open>order_id\<close>.\<close>

definition callbackHead ::
  "env \<Rightarrow> db \<Rightarrow> string \<Rightarrow> string \<Rightarrow> error + DecodedCallbackData \<times> transaction" where
  "callbackHead e s data sign =
     (case decodeCallback e data of
        None \<Rightarrow> Inl InvalidDataFormat
      | Some decodedData \<Rightarrow>
          (case verifyResponseSignature e data sign (secretKey (config e)) of
             Inl err \<Rightarrow> Inl err
           | Inr _ \<Rightarrow>
               (case getTransactionByOrderId s (cb_order_id decodedData) of
                  None \<Rightarrow> Inl TransactionNotFound
                | Some transaction \<Rightarrow> Inr (decodedData, transaction))))"

definition tokenOfCallback :: "transaction \<Rightarrow> DecodedCallbackData \<Rightarrow> CreateTokenBody" where
  "tokenOfCallback transaction decodedData =
     \<lparr>ct_userId = tx_user_id transaction, ct_token = cb_recurrent_token decodedData,
      ct_expired_at = cb_payment_date decodedData, ct_amount = cb_amount decodedData,
      ct_pan_masked = cb_pan_masked decodedData\<rparr>"

text \<open>\<open>paymentService.callback\<close>.\<close>

definition payment_callback :: "env \<Rightarrow> string \<Rightarrow> string \<Rightarrow> db \<Rightarrow> (error + transaction) \<times> db" where
  "payment_callback e data sign s =
     (case callbackHead e s data sign of
        Inl err \<Rightarrow> (Inl err, s)
      | Inr (decodedData, transaction) \<Rightarrow>
          if cb_operation_status decodedData = ''success'' then
            let s1 = snd (createToken (tokenOfCallback transaction decodedData) s);
                s2 = updateTransaction (tx_id transaction)
                       \<lparr>u_orderId = Some (cb_order_id decodedData),
                        u_paymentId = Some (cb_payment_id decodedData),
                        u_status = Some Completed,
                        u_transactionData = Some (CallbackData decodedData),
                        u_userSubscriptionId = None\<rparr> s1;
                s3 = (case tx_bar_id transaction of
                        None \<Rightarrow> s2
                      | Some barId \<Rightarrow>
                          if truthy_str barId \<and> tx_status transaction \<noteq> Some Completed then
                            (case getBarById e barId of
                               None \<Rightarrow> s2
                             | Some bar \<Rightarrow>
                                 creditBarOwner e (bar_profile_id bar) (tx_amount transaction)
                                   (tx_currency_id transaction) barId Card
                                   (Some (cb_order_id decodedData))
                                   (Some (cb_payment_id decodedData)) s2)
                          else s2)
            in (Inr transaction, s3)
          else
            (Inr transaction,
             updateTransaction (tx_id transaction)
               \<lparr>u_orderId = Some (cb_order_id decodedData),
                u_paymentId = Some (cb_payment_id decodedData),
                u_status = Some Failed,
                u_transactionData = Some (CallbackData decodedData),
                u_userSubscriptionId = None\<rparr> s))"

subsection \<open>Wallet service (modules/wallet/wallet.service.ts)\<close>

record TopUpBody =
  tu_amount :: rat
  tu_email :: string
  tu_paymentType :: payment_kind
  tu_currencyId :: "nat option"
  tu_tokenId :: "nat option"

datatype topup_result =
    TokenTopUp bool string DecodedPaymentData
  | CardTopUp bool string DecodedPaymentData

text \<open>The block \<open>if (paymentType === "token")\<close> of \<open>topUp\<close>, entered with the pending
  transaction created.\<close>

definition topUpWithToken ::
  "env \<Rightarrow> nat \<Rightarrow> TopUpBody \<Rightarrow> rat \<Rightarrow> nat \<Rightarrow> nat \<Rightarrow> db \<Rightarrow> (error + topup_result) \<times> db" where
  "topUpWithToken e userId body amount currencyId transactionId s =
     (case getPaymentTokenById s (case tu_tokenId body of Some t \<Rightarrow> t | None \<Rightarrow> 0) userId of
        None \<Rightarrow> (Inl PaymentTokenNotFound, s)
      | Some paymentToken \<Rightarrow>
          (case sendPaymentRecurrentRequest
                  (createPaymentRecurrentRequestBody e s (tok_token paymentToken) amount) s of
             (Inl err, s1) \<Rightarrow> (Inl err, s1)
           | (Inr responseToken, s1) \<Rightarrow>
               (case verifiedPaymentData e responseToken of
                  Inl err \<Rightarrow> (Inl err, s1)
                | Inr decodedDataToken \<Rightarrow>
                    let ok = isPaymentSuccessful responseToken decodedDataToken;
                        s2 = (if ok then depositUserWallet userId currencyId amount s1 else s1);
                        s3 = updateTransaction transactionId
                               \<lparr>u_orderId = Some (pd_order_id decodedDataToken),
                                u_paymentId = Some (resp_payment_id responseToken),
                                u_status =
                                  Some (if ok then Completed
                                        else mapPaymentStatus
                                               (Some (pd_payment_status decodedDataToken))),
                                u_transactionData = Some (PaymentData decodedDataToken),
                                u_userSubscriptionId = None\<rparr> s2
                    in (Inr (TokenTopUp ok (resp_payment_id responseToken) decodedDataToken),
                        s3))))"

text \<open>The block \<open>if (paymentType === "card")\<close> of \<open>topUp\<close>.\<close>

definition topUpWithCard ::
  "env \<Rightarrow> TopUpBody \<Rightarrow> rat \<Rightarrow> nat \<Rightarrow> db \<Rightarrow> (error + topup_result) \<times> db" where
  "topUpWithCard e body amount transactionId s =
     (case sendPaymentCreateRequest
             (createDepositPaymentRequest e s amount (tu_email body) transactionId) s of
        (Inl err, s1) \<Rightarrow> (Inl err, s1)
      | (Inr response, s1) \<Rightarrow>
          (case verifiedPaymentData e response of
             Inl err \<Rightarrow> (Inl err, s1)
           | Inr decodedData \<Rightarrow>
               (Inr (CardTopUp (resp_success response = Some True)
                       (resp_payment_id response) decodedData),
                updateTransaction transactionId
                  \<lparr>u_orderId = Some (pd_order_id decodedData),
                   u_paymentId = Some (resp_payment_id response),
                   u_status = Some (mapPaymentStatus (Some (pd_payment_status decodedData))),
                   u_transactionData = Some (PaymentData decodedData),
                   u_userSubscriptionId = None\<rparr> s1)))"

text \<open>\<open>walletService.topUp\<close>: the checks, the pending transaction, then the block of the
  payment type.\<close>

definition topUp :: "env \<Rightarrow> nat \<Rightarrow> TopUpBody \<Rightarrow> db \<Rightarrow> (error + topup_result) \<times> db" where
  "topUp e userId body s =
     (let amount = tu_amount body;
          currencyId = (case tu_currencyId body of Some c \<Rightarrow> c | None \<Rightarrow> 1)
      in
      if tu_paymentType body = OtherKind [] \<or> amount = 0 \<or> \<not> truthy_str (tu_email body)
      then (Inl MissingRequiredFields, s)
      else if tu_paymentType body = ByToken \<and> \<not> truthy_id (tu_tokenId body)
      then (Inl TokenIdRequired, s)
      else if \<not> truthy_str (secretKey (config e)) \<or> \<not> truthy_str (apiKey (config e))
              \<or> \<not> truthy_str (apiUrl (config e)) \<or> \<not> truthy_str (kornerApiUrl (config e))
              \<or> \<not> truthy_str (kornerUrl (config e)) \<or> \<not> truthy_str (merchantId (config e))
              \<or> \<not> truthy_str (serviceId (config e))
      then (Inl MissingEnvironmentVariables, s)
      else
        case createTransaction (tx_params userId currencyId amount Deposit Card Pending) s of
          (transactionId, s0) \<Rightarrow>
            if tu_paymentType body = ByToken
            then topUpWithToken e userId body amount currencyId transactionId s0
            else if tu_paymentType body = ByCard
            then topUpWithCard e body amount transactionId s0
            else (Inl InvalidPaymentType, s0))"

text \<open>\<open>walletService.callback\<close>. \<open>isRecurrentPayment\<close> is
  \<open>order_id.startsWith("recurrent_")\<close>.\<close>

definition isRecurrentPayment :: "string \<Rightarrow> bool" where
  "isRecurrentPayment orderId = (take 10 orderId = ''recurrent_'')"

definition wallet_callback :: "env \<Rightarrow> string \<Rightarrow> string \<Rightarrow> db \<Rightarrow> (error + transaction) \<times> db" where
  "wallet_callback e data sign s =
     (case callbackHead e s data sign of
        Inl err \<Rightarrow> (Inl err, s)
      | Inr (decodedData, transaction) \<Rightarrow>
          let s2 =
                (if cb_operation_status decodedData = ''success'' \<and> tx_type transaction = Deposit
                    \<and> \<not> isRecurrentPayment (cb_order_id decodedData)
                 then
                   let s1 = (if truthy_str (cb_recurrent_token decodedData)
                             then snd (createToken (tokenOfCallback transaction decodedData) s)
                             else s)
                   in depositUserWallet (tx_user_id transaction) (tx_currency_id transaction)
                        (tx_amount transaction) s1
                 else s)
          in (Inr transaction,
              updateTransaction (tx_id transaction)
                \<lparr>u_orderId = Some (cb_order_id decodedData),
                 u_paymentId = tx_payment_id transaction,
                 u_status = Some (if cb_operation_status decodedData = ''success''
                                  then Completed else Failed),
                 u_transactionData = Some (CallbackData decodedData),
                 u_userSubscriptionId = None\<rparr> s2))"

subsection \<open>Subscription service (modules/subscription/subscription.service.ts)\<close>

text \<open>\<open>subscriptionService.callback\<close>; an error of \<open>createSubscription\<close> is caught and
  logged.\<close>

definition subscription_callback ::
  "env \<Rightarrow> string \<Rightarrow> string \<Rightarrow> db \<Rightarrow> (error + transaction) \<times> db" where
  "subscription_callback e data sign s =
     (case callbackHead e s data sign of
        Inl err \<Rightarrow> (Inl err, s)
      | Inr (decodedData, transaction) \<Rightarrow>
          if cb_operation_status decodedData = ''success'' then
            let s1 = snd (createToken (tokenOfCallback transaction decodedData) s);
                s2 = (case getSubscriptionInfoByTransactionId s1 (tx_id transaction) of
                        None \<Rightarrow> s1
                      | Some planId \<Rightarrow>
                          snd (createSubscription e (tx_user_id transaction) planId True Card
                                 (Some (cb_pan_masked decodedData)) s1))
            in (Inr transaction,
                updateTransaction (tx_id transaction)
                  \<lparr>u_orderId = Some (cb_order_id decodedData),
                   u_paymentId = Some (cb_payment_id decodedData),
                   u_status = Some Completed,
                   u_transactionData = Some (CallbackData decodedData),
                   u_userSubscriptionId = None\<rparr> s2)
          else (Inr transaction, s))"

subsection \<open>Subscription renewal service (services/subscriptionRenewal.service.ts)\<close>















subsection \<open>States between the steps of a payment\<close>

text \<open>\<open>s'\<close> is \<open>s\<close> after the insertion of one pending transaction row, and nothing
  else.\<close>

definition pending_inserted :: "db \<Rightarrow> db \<Rightarrow> bool" where
  "pending_inserted s s' =
     (\<exists>row. tx_id row = transactions_seq s \<and> tx_status row = Some Pending
        \<and> s' = s\<lparr>transactions := transactions s @ [row],
                 transactions_seq := Suc (transactions_seq s),
                 effects := effects s @ [InsertTransaction (transactions_seq s) (Some Pending)]\<rparr>)"

text \<open>The configuration check of \<open>topUp\<close> passes.\<close>

definition topUp_config_complete :: "env \<Rightarrow> bool" where
  "topUp_config_complete e =
     (truthy_str (secretKey (config e)) \<and> truthy_str (apiKey (config e))
      \<and> truthy_str (apiUrl (config e)) \<and> truthy_str (kornerApiUrl (config e))
      \<and> truthy_str (kornerUrl (config e)) \<and> truthy_str (merchantId (config e))
      \<and> truthy_str (serviceId (config e)))"

subsection \<open>Unverified gateway data\<close>

text \<open>The recomputed HMAC over \<open>data\<close> differs from \<open>sign\<close>.\<close>

definition signature_mismatch :: "env \<Rightarrow> string \<Rightarrow> string \<Rightarrow> bool" where
  "signature_mismatch e data sign = (hmac_sha512 e (secretKey (config e)) data \<noteq> sign)"

text \<open>The gateway's next answer is a response whose signature does not verify.\<close>

definition next_response_forged :: "env \<Rightarrow> db \<Rightarrow> bool" where
  "next_response_forged e s =
     (case gateway_responses s of
        Some r # rest \<Rightarrow> signature_mismatch e (resp_data r) (resp_sign r)
      | _ \<Rightarrow> False)"





subsection \<open>The first effect of a payment attempt\<close>

text \<open>The log of \<open>s'\<close> is the log of \<open>s\<close> followed by further effects.\<close>

definition log_extends :: "db \<Rightarrow> db \<Rightarrow> bool" where
  "log_extends s s' = (\<exists>new. effects s' = effects s @ new)"


subsection \<open>The candidates of a renewal pass\<close>






subsection \<open>Concrete inputs\<close>

text \<open>An empty database with the single currency 1.\<close>

definition db0 :: db where
  "db0 = \<lparr>now = 0, currencies = [1], users = [], balances = Map.empty, transactions = [],
          transactions_seq = 1, platform_fees = [], platform_fees_seq = 1,
          payment_tokens = [], payment_tokens_seq = 1, user_subscriptions = [],
          user_subscriptions_seq = 1, subscription_plans = [], subscription_plans_prices = [],
          gateway_responses = [], effects = []\<rparr>"

text \<open>Decimal texts of a column of scale 2: 0.00, 1.50, 5.00, 7.00, 10.00, 50.00 and
  200.00.\<close>

definition dec_0_00 :: decimal where
  "dec_0_00 = Decimal False D0 [] [D0, D0]"

definition dec_1_50 :: decimal where
  "dec_1_50 = Decimal False D1 [] [D5, D0]"

definition dec_5_00 :: decimal where
  "dec_5_00 = Decimal False D5 [] [D0, D0]"

definition dec_7_00 :: decimal where
  "dec_7_00 = Decimal False D7 [] [D0, D0]"

definition dec_10_00 :: decimal where
  "dec_10_00 = Decimal False D1 [D0] [D0, D0]"

definition dec_50_00 :: decimal where
  "dec_50_00 = Decimal False D5 [D0] [D0, D0]"

definition dec_200_00 :: decimal where
  "dec_200_00 = Decimal False D2 [D0, D0] [D0, D0]"

text \<open>The fee rule of the spec's scenario: 5 percent, at least 10, at most 200, as the
  driver returns the row (decimal text).\<close>

definition rule1 :: PlatformFee where
  "rule1 = \<lparr>fee_id = 1, fee_currency_id = 1, fee_percentage = Text dec_5_00,
            min_fee_amount = Some (Text dec_10_00), max_fee_amount = Some (Text dec_200_00),
            is_active = True\<rparr>"

text \<open>A rule of 5 percent, at least 50, at most 200: as the driver returns it, and with the
  numbers that the TypeScript interface declares. A rule of 1.5 percent without bounds.\<close>

definition rule_text :: PlatformFee where
  "rule_text = \<lparr>fee_id = 1, fee_currency_id = 1, fee_percentage = Text dec_5_00,
            min_fee_amount = Some (Text dec_50_00), max_fee_amount = Some (Text dec_200_00),
            is_active = True\<rparr>"

definition rule_numbers :: PlatformFee where
  "rule_numbers = \<lparr>fee_id = 1, fee_currency_id = 1, fee_percentage = Num 5,
            min_fee_amount = Some (Num 50), max_fee_amount = Some (Num 200),
            is_active = True\<rparr>"

definition rule_1_5 :: PlatformFee where
  "rule_1_5 = \<lparr>fee_id = 1, fee_currency_id = 1, fee_percentage = Text dec_1_50,
            min_fee_amount = None, max_fee_amount = None, is_active = True\<rparr>"

text \<open>A rule of 5 percent whose maximum is stored as zero.\<close>

definition rule_zero_text :: PlatformFee where
  "rule_zero_text = \<lparr>fee_id = 1, fee_currency_id = 1, fee_percentage = Text dec_5_00,
            min_fee_amount = None, max_fee_amount = Some (Text dec_0_00), is_active = True\<rparr>"

definition fee_old :: PlatformFee where
  "fee_old = \<lparr>fee_id = 1, fee_currency_id = 1, fee_percentage = Text dec_5_00,
      min_fee_amount = None, max_fee_amount = None, is_active = False\<rparr>"

definition fee_new :: PlatformFee where
  "fee_new = \<lparr>fee_id = 2, fee_currency_id = 1, fee_percentage = Text dec_7_00,
      min_fee_amount = None, max_fee_amount = None, is_active = True\<rparr>"

definition reactivate :: feeUpdate where
  "reactivate = \<lparr>fu_fee_percentage = None, fu_min_fee_amount = None,
      fu_max_fee_amount = None, fu_is_active = Some True\<rparr>"

text \<open>User 1 holds 1000 and user 2 holds 0 in currency 1.\<close>

definition db_wallet :: db where
  "db_wallet = db0\<lparr>balances := [(1, 1) \<mapsto> 1000, (2, 1) \<mapsto> 0]\<rparr>"

text \<open>A 5 percent rule with a minimum fee of 10.\<close>

definition rule_min10 :: PlatformFee where
  "rule_min10 = \<lparr>fee_id = 1, fee_currency_id = 1, fee_percentage = Text dec_5_00,
            min_fee_amount = Some (Text dec_10_00), max_fee_amount = None, is_active = True\<rparr>"

text \<open>A configuration, a monetized bar of price 500 owned by user 2, decoded payloads, and an
  environment whose HMAC is a toy (the key followed by the data).\<close>

definition config0 :: SubscriptionConfig where
  "config0 = \<lparr>secretKey = ''k'', apiKey = ''a'', apiUrl = ''u'', kornerApiUrl = ''ka'',
              kornerUrl = ''kw'', merchantId = ''m'', serviceId = ''sv''\<rparr>"

definition bar7 :: BarData where
  "bar7 = \<lparr>bar_profile_id = ''p2'', bar_is_monetized = True,
           bar_monetized_details = Some \<lparr>md_price = Some 500, md_currencyCode = Some ''KZT''\<rparr>\<rparr>"

definition payment_paid :: DecodedPaymentData where
  "payment_paid = \<lparr>pd_order_id = ''recurrent_1'', pd_payment_status = ''success'',
                   pd_operation_status = None\<rparr>"

definition callback_deposit :: DecodedCallbackData where
  "callback_deposit = \<lparr>cb_payment_id = ''77'', cb_order_id = ''pay_1'',
      cb_operation_status = ''success'', cb_recurrent_token = ''tok'', cb_amount = 100,
      cb_payment_date = ''d'', cb_pan_masked = ''4400''\<rparr>"

definition callback_subscription :: DecodedCallbackData where
  "callback_subscription = callback_deposit\<lparr>cb_order_id := ''pay_2''\<rparr>"

definition env0 :: env where
  "env0 = \<lparr>config = config0,
            hmac_sha512 = (\<lambda>key data. key @ data),
            encode = (\<lambda>d. ''request''),
            decodePayment = (\<lambda>d. if d = ''paid'' then Some payment_paid else None),
            decodeCallback = (\<lambda>d. if d = ''cb1'' then Some callback_deposit
                                    else if d = ''cb2'' then Some callback_subscription else None),
            getBarById = (\<lambda>b. if b = ''7'' then Some bar7 else None),
            getProfileById = (\<lambda>p. if p = ''p2'' then Some \<lparr>profile_user_id = 2\<rparr> else None),
            getUserIdByProfileId = (\<lambda>p. if p = ''p2'' then Some 2 else None),
            plus_interval = (\<lambda>t p. t + 1000),
            months_before = (\<lambda>t m. t - m)\<rparr>"

text \<open>A shop: user 1 holds 1000, the owner (user 2) holds 0 and has an active card
  subscription; the fee rule is 5 percent, at least 10, at most 200.\<close>

definition sub1 :: UserSubscription where
  "sub1 = \<lparr>sub_id = 1, sub_user_id = 2, sub_subscription_plan_id = 1,
           sub_is_auto_renewal = True, sub_payment_method = Card,
           sub_masked_pan = Some ''4400'', sub_created_at = 0, sub_expired_at = 1000\<rparr>"

definition db_shop :: db where
  "db_shop = db0\<lparr>now := 10, users := [1, 2],
      balances := [(1, 1) \<mapsto> 1000, (2, 1) \<mapsto> 0],
      platform_fees := [rule1], platform_fees_seq := 2,
      user_subscriptions := [sub1], user_subscriptions_seq := 2,
      subscription_plans := [\<lparr>plan_id = 1, plan_name = ''pro'', plan_period = Monthly\<rparr>],
      subscription_plans_prices :=
        [\<lparr>spp_id = 1, spp_subscription_plan_id = 1, spp_currency_id = 1, spp_price = 900\<rparr>]\<rparr>"

definition body_token :: CreatePaymentBody where
  "body_token = \<lparr>cp_email = ''a@b'', cp_payment_type = ByToken, cp_currency_id = None,
                 cp_token_id = Some 5, cp_bar_id = ''7''\<rparr>"

definition topup_token :: TopUpBody where
  "topup_token = \<lparr>tu_amount = 100, tu_email = ''a@b'', tu_paymentType = ByToken,
                  tu_currencyId = None, tu_tokenId = Some 5\<rparr>"

text \<open>Two pending card transactions waiting for their callbacks: a deposit of 100 by user 1
  and a subscription payment of user 2.\<close>

definition pending_deposit :: transaction where
  "pending_deposit = \<lparr>tx_id = 1, tx_user_id = 1, tx_currency_id = 1, tx_amount = 100,
      tx_type = Deposit, tx_source = Card, tx_user_subscription_id = None, tx_bar_id = None,
      tx_status = Some Pending, tx_order_id = Some ''pay_1'', tx_payment_id = Some ''77'',
      tx_transaction_data = None, tx_subscription_plan_id = None,
      tx_subscription_price_id = None\<rparr>"

definition pending_subscription :: transaction where
  "pending_subscription = pending_deposit\<lparr>tx_id := 2, tx_user_id := 2, tx_amount := 900,
      tx_type := Subscription, tx_order_id := Some ''pay_2'',
      tx_subscription_plan_id := Some 1, tx_subscription_price_id := Some 1\<rparr>"

definition db_callbacks :: db where
  "db_callbacks = db_shop\<lparr>transactions := [pending_deposit, pending_subscription],
      transactions_seq := 3\<rparr>"

text \<open>The deposit callback of transaction 1 and the subscription callback of transaction 2,
  each applied once and twice.\<close>

definition deposit_callback_once :: db where
  "deposit_callback_once = snd (wallet_callback env0 ''cb1'' ''kcb1'' db_callbacks)"

definition deposit_callback_twice :: db where
  "deposit_callback_twice = snd (wallet_callback env0 ''cb1'' ''kcb1'' deposit_callback_once)"

definition subscription_callback_once :: db where
  "subscription_callback_once = snd (subscription_callback env0 ''cb2'' ''kcb2'' db_callbacks)"

definition subscription_callback_twice :: db where
  "subscription_callback_twice =
     snd (subscription_callback env0 ''cb2'' ''kcb2'' subscription_callback_once)"













section \<open>Verified properties\<close>

subsection \<open>Status mapper\<close>

lemma toLowerCase_idem: "toLowerCase (toLowerCase s) = toLowerCase s"
  by (induction s) (auto simp: toLowerCase_def toLowerCase_char_def)

lemma mapPaymentStatus_lower:
  "mapPaymentStatus (Some (toLowerCase s)) = mapPaymentStatus (Some s)"
  by (simp add: mapPaymentStatus_def toLowerCase_idem)






subsection \<open>Fee calculator\<close>

text \<open>The rounding to the nearest double: \<open>binade\<close> is the exponent of its argument, and
  \<open>fl x\<close> is within half a unit in the last place of \<open>x\<close>. The double nearest to one
  tenth is 3602879701896397 / 2 ^ 55.\<close>

lemma pow2_pos: "0 < pow2 e"
  by (simp add: pow2_def)

lemma pow2_powi: "pow2 e = 2 powi e"
proof (cases "0 \<le> e")
  case True
  then show ?thesis by (simp add: pow2_def power_int_def)
next
  case False
  then have "(2::rat) powi e = inverse 2 ^ nat (- e)" by (simp add: power_int_def)
  also have "\<dots> = 1 / 2 ^ nat (- e)" by (simp only: inverse_eq_divide power_one_over)
  finally show ?thesis using False by (simp only: pow2_def if_False)
qed

lemma round_half_even_nonneg: "0 \<le> y \<Longrightarrow> 0 \<le> round_half_even y"
  by (simp add: round_half_even_def Let_def)

lemma round_half_even_near: "\<bar>of_int (round_half_even y) - y\<bar> \<le> 1 / 2"
proof -
  have f: "of_int \<lfloor>y\<rfloor> \<le> y" "y < of_int \<lfloor>y\<rfloor> + 1" by linarith+
  define n where "n = \<lfloor>y\<rfloor>"
  from f have g: "of_int n \<le> y" "y < of_int n + 1" by (simp_all add: n_def)
  have "round_half_even y =
      (if y - of_int n < 1 / 2 then n else if 1 / 2 < y - of_int n then n + 1
       else if even n then n else n + 1)"
    by (simp add: round_half_even_def Let_def n_def)
  then show ?thesis using g by (auto simp: abs_le_iff split: if_splits)
qed

lemma fl_nonneg: "0 \<le> x \<Longrightarrow> 0 \<le> fl x"
  using pow2_pos[of "binade x - 52"] round_half_even_nonneg[of "x / pow2 (binade x - 52)"]
  by (simp add: fl_def Let_def)

lemma binade_bounds:
  assumes "x \<noteq> 0"
  shows "pow2 (binade x) \<le> \<bar>x\<bar> \<and> \<bar>x\<bar> < pow2 (binade x + 1)"
proof -
  obtain p q where pq: "quotient_of \<bar>x\<bar> = (p, q)" by (cases "quotient_of \<bar>x\<bar>")
  then have q: "0 < q" and x: "\<bar>x\<bar> = of_int p / of_int q"
    using quotient_of_denom_pos quotient_of_div by blast+
  from assms x q have p: "0 < p"
    by (metis abs_ge_zero abs_zero divide_eq_0_iff not_less of_int_0 of_int_pos order.order_iff_strict zero_less_abs_iff zero_less_divide_iff of_int_0_less_iff)
  let ?e = "bitlen p - bitlen q"
  have bp: "2 ^ nat (bitlen p - 1) \<le> p" "p < 2 ^ nat (bitlen p)"
    using bitlen_bounds[OF p] by simp_all
  have bq: "2 ^ nat (bitlen q - 1) \<le> q" "q < 2 ^ nat (bitlen q)"
    using bitlen_bounds[OF q] by simp_all
  have b1: "1 \<le> bitlen p" "1 \<le> bitlen q"
    using p q by (simp_all add: bitlen_alt_def)
  have P: "(2::rat) powi (bitlen p - 1) \<le> of_int p" "of_int p < (2::rat) powi bitlen p"
  proof -
    have "(2::rat) ^ nat (bitlen p - 1) \<le> of_int p"
      using bp(1) by (metis of_int_le_iff of_int_numeral of_int_power)
    then show "(2::rat) powi (bitlen p - 1) \<le> of_int p"
      using b1 by (simp add: power_int_def)
    have "of_int p < (2::rat) ^ nat (bitlen p)"
      using bp(2) by (metis of_int_less_iff of_int_numeral of_int_power)
    then show "of_int p < (2::rat) powi bitlen p"
      using b1 by (simp add: power_int_def)
  qed
  have Q: "(2::rat) powi (bitlen q - 1) \<le> of_int q" "of_int q < (2::rat) powi bitlen q"
  proof -
    have "(2::rat) ^ nat (bitlen q - 1) \<le> of_int q"
      using bq(1) by (metis of_int_le_iff of_int_numeral of_int_power)
    then show "(2::rat) powi (bitlen q - 1) \<le> of_int q"
      using b1 by (simp add: power_int_def)
    have "of_int q < (2::rat) ^ nat (bitlen q)"
      using bq(2) by (metis of_int_less_iff of_int_numeral of_int_power)
    then show "of_int q < (2::rat) powi bitlen q"
      using b1 by (simp add: power_int_def)
  qed
  have qpos: "(0::rat) < of_int q" using q by simp
  have lo: "(2::rat) powi (?e - 1) < \<bar>x\<bar>"
  proof -
    have "(2::rat) powi (?e - 1) = 2 powi (bitlen p - 1) / 2 powi bitlen q"
      by (simp add: power_int_diff)
    also have "\<dots> \<le> of_int p / 2 powi bitlen q"
      using P(1) by (simp add: divide_right_mono)
    also have "\<dots> < of_int p / of_int q"
      using Q(2) p qpos by (simp add: divide_strict_left_mono)
    finally show ?thesis by (simp add: x)
  qed
  have hi: "\<bar>x\<bar> < (2::rat) powi (?e + 1)"
  proof -
    have "of_int p / of_int q < (2::rat) powi bitlen p / of_int q"
      using P(2) qpos by (simp add: divide_strict_right_mono)
    also have "\<dots> \<le> 2 powi bitlen p / 2 powi (bitlen q - 1)"
      using Q(1) qpos by (simp add: divide_left_mono)
    also have "\<dots> = 2 powi (?e + 1)"
      by (simp add: power_int_diff power_int_add)
    finally show ?thesis by (simp add: x)
  qed
  show ?thesis
  proof (cases "pow2 ?e \<le> \<bar>x\<bar>")
    case True
    then have "binade x = ?e" by (simp add: binade_def pq Let_def)
    with True hi show ?thesis by (simp add: pow2_powi)
  next
    case False
    then have "binade x = ?e - 1" by (simp add: binade_def pq Let_def)
    with False lo show ?thesis by (simp add: pow2_powi)
  qed
qed

lemma fl_near: "\<bar>fl x - x\<bar> \<le> pow2 (binade x - 53)"
proof (cases "x = 0")
  case True
  then show ?thesis using pow2_pos[of "binade x - 53"] by (simp add: fl_def)
next
  case False
  let ?u = "pow2 (binade x - 52)"
  have u: "0 < ?u" by (rule pow2_pos)
  have h: "pow2 (binade x - 53) = ?u / 2"
    by (simp add: pow2_powi power_int_diff)
  have "fl x - x = (of_int (round_half_even (x / ?u)) - x / ?u) * ?u"
    using False u by (simp add: fl_def Let_def field_simps)
  then have "\<bar>fl x - x\<bar> = \<bar>of_int (round_half_even (x / ?u)) - x / ?u\<bar> * ?u"
    using u by (simp add: abs_mult)
  also have "\<dots> \<le> 1 / 2 * ?u"
    using round_half_even_near[of "x / ?u"] u by (simp add: mult_right_mono)
  finally show ?thesis by (simp add: h)
qed

lemma fl_examples:
  "fl (1 / 10) = 3602879701896397 / 2 ^ 55 \<and> fl 25 = 25 \<and> fl (- 100) = - 100
 \<and> fl (2 ^ 53 + 1) = 2 ^ 53 \<and> fl (2 ^ 53 + 3) = 2 ^ 53 + 4"
  by code_simp

text \<open>Without an active rule the amount comes back unchanged. With number-valued columns
  the fee is the percentage fee raised to the minimum and capped by the maximum, rounded
  afterwards. With text-valued bounds, once the minimum has replaced the percentage fee, the
  maximum replaces the minimum when its text is the smaller one in the order of strings.\<close>

lemma calculateFee_no_rule:
  "getActiveFeeForCurrency fees c = None \<Longrightarrow>
   calculateFee fees a c =
     \<lparr>originalAmount = a, feeAmount = 0, finalAmount = a, feePercentage = Num 0\<rparr>"
  by (simp add: calculateFee_def)

lemma calculateFee_number_columns:
  assumes "getActiveFeeForCurrency fees c = Some fee" "fee_percentage fee = Num p"
    "min_fee_amount fee = Some (Num lo)" "max_fee_amount fee = Some (Num hi)"
    "lo \<noteq> 0" "hi \<noteq> 0"
  shows "feeAmount (calculateFee fees a c) = round2 (min hi (max lo (fdiv (fmul a p) 100)))"
    and "finalAmount (calculateFee fees a c) = round2 (fsub a (feeAmount (calculateFee fees a c)))"
  using assms by (auto simp: calculateFee_def Let_def js_gt_def min_def max_def)

lemma calculateFee_text_columns:
  assumes "getActiveFeeForCurrency fees c = Some fee"
    "min_fee_amount fee = Some (Text lo)" "max_fee_amount fee = Some (Text hi)"
    "fdiv (fmul a (toNumber (fee_percentage fee))) 100 < fl (decimal_value lo)"
  shows "feeAmount (calculateFee fees a c) =
           round2 (fl (decimal_value (if text_lt (text_of hi) (text_of lo) then hi else lo)))"
proof -
  have t: "text_of d \<noteq> []" for d by (simp add: text_of_def)
  show ?thesis using assms by (simp add: calculateFee_def Let_def js_gt_def t)
qed


text \<open>\<open>Math.round(x * 100) / 100\<close> on doubles: 1.5 percent of 19 is 0.285, the computed
  double lies below it, and the fee comes out as 0.28.\<close>

lemma calculateFee_double_rounding:
  "fdiv (fmul 19 (toNumber (Text dec_1_50))) 100 < 285 / 1000
 \<and> feeAmount (calculateFee [rule_1_5] 19 1) = fl (28 / 100)"
  by code_simp

text \<open>A bound that is stored as zero comes back as the text 0.00, which is a non-empty
  string: the bound is applied, and the fee on 100 is 0. As the number 0 it is not applied.\<close>

lemma calculateFee_zero_bound:
  "text_of dec_0_00 = ''0.00''
 \<and> feeAmount (calculateFee [rule_zero_text] 100 1) = 0
 \<and> feeAmount (calculateFee [rule_zero_text\<lparr>max_fee_amount := Some (Num 0)\<rparr>] 100 1) = 5"
  by code_simp

text \<open>
  Claim C5 at its failing input. The active rule of currency 1 is 5 percent, at least 50, at
  most 200, and the driver returns its columns as the texts 5.00, 50.00 and 200.00. For the
  amount 100 the percentage fee is 5, below the minimum, so \<open>feeAmount\<close> becomes the text
  50.00; the test against the maximum then compares two strings, the text 200.00 is the
  smaller one, and \<open>feeAmount\<close> becomes the maximum: the fee is 200 and \<open>finalAmount\<close> is
  -100, where clamping to the bounds gives 50 and 50. With number-valued columns the same
  rule gives 50 and 50.
\<close>

theorem calculateFee_text_bounds:
  "map text_of [dec_5_00, dec_50_00, dec_200_00] = [''5.00'', ''50.00'', ''200.00'']
 \<and> text_lt ''200.00'' ''50.00''
 \<and> calculateFee [rule_text] 100 1 =
     \<lparr>originalAmount = 100, feeAmount = 200, finalAmount = - 100,
      feePercentage = Text dec_5_00\<rparr>
 \<and> calculateFee [rule_numbers] 100 1 =
     \<lparr>originalAmount = 100, feeAmount = 50, finalAmount = 50, feePercentage = Num 5\<rparr>"
  by code_simp

subsection \<open>Fee rules\<close>

lemma active_fees_create:
  "active_fees (platform_fees (snd (createPlatformFee d s))) c =
     (if c = fd_currency_id d then [fst (createPlatformFee d s)]
      else active_fees (platform_fees s) c)"
proof -
  have "filter (\<lambda>f. fee_currency_id f = c \<and> is_active f)
          (map (\<lambda>f. if fee_currency_id f = k \<and> is_active f then f\<lparr>is_active := False\<rparr> else f) fs)
        = (if c = k then [] else filter (\<lambda>f. fee_currency_id f = c \<and> is_active f) fs)"
    for fs :: "PlatformFee list" and k
    by (induction fs) auto
  then show ?thesis
    by (simp add: createPlatformFee_def Let_def active_fees_def)
qed

lemma one_active_iff:
  "one_active_per_currency fees \<longleftrightarrow> (\<forall>c. length (active_fees fees c) \<le> 1)"
proof -
  have "active_fees fees c = []" if "c \<notin> fee_currency_id ` set fees" for c
    using that by (auto simp: active_fees_def filter_empty_conv)
  then show ?thesis
    unfolding one_active_per_currency_def list_all_iff
    by (metis (no_types, lifting) list.size(3) zero_le set_map)
qed

text \<open>Creating a rule leaves exactly the new rule active for its currency and keeps the
  invariant.\<close>

lemma createPlatformFee_keeps_one_active:
  "one_active_per_currency (platform_fees s) \<Longrightarrow>
   one_active_per_currency (platform_fees (snd (createPlatformFee d s)))"
  by (simp add: one_active_iff active_fees_create)

text \<open>
  Claim C6 at its failing input. The table holds an inactive rule 1 and the active rule 2 of
  currency 1, so the invariant holds. \<open>updatePlatformFee 1 {is_active: true}\<close> activates
  rule 1 without deactivating rule 2: two rules of currency 1 are active afterwards.
\<close>

theorem updatePlatformFee_second_active:
  "one_active_per_currency [fee_old, fee_new]
 \<and> \<not> one_active_per_currency
       (platform_fees (snd (updatePlatformFee 1 reactivate
          (db0\<lparr>platform_fees := [fee_old, fee_new], platform_fees_seq := 3\<rparr>))))"
  by (simp add: one_active_per_currency_def active_fees_def updatePlatformFee_def Let_def
      applyFeeUpdate_def fee_old_def fee_new_def reactivate_def db0_def)

subsection \<open>Wallet debit\<close>

lemma deduct_fail:
  "balances s (u, c) = None \<Longrightarrow> deduct u c a ty b sub s = (Inl BalanceNotFound, s)"
  "balances s (u, c) = Some cur \<Longrightarrow> cur < a \<Longrightarrow>
     deduct u c a ty b sub s = (Inl (Insufficient cur a), s)"
  by (simp_all add: deduct_def)

lemma deduct_ok:
  assumes "balances s (u, c) = Some cur" "\<not> cur < a"
  shows "\<exists>row. deduct u c a ty b sub s = (Inr (transactions_seq s), debited s u c cur a row)
           \<and> ledger_row row (transactions_seq s) u c a ty
           \<and> tx_user_subscription_id row = sub \<and> tx_bar_id row = b"
proof -
  let ?row = "\<lparr>tx_id = transactions_seq s, tx_user_id = u, tx_currency_id = c,
               tx_amount = a, tx_type = ty, tx_source = Wallet,
               tx_user_subscription_id = sub, tx_bar_id = b,
               tx_status = Some Completed, tx_order_id = None, tx_payment_id = None,
               tx_transaction_data = None, tx_subscription_plan_id = None,
               tx_subscription_price_id = None\<rparr>"
  have "deduct u c a ty b sub s = (Inr (transactions_seq s), debited s u c cur a ?row)"
    using assms by (simp add: deduct_def Let_def debited_def)
  moreover have "ledger_row ?row (transactions_seq s) u c a ty"
    by (simp add: ledger_row_def)
  ultimately show ?thesis by (intro exI[of _ ?row]) simp
qed

text \<open>
  Claim C2. Each of the two wallet debits is one state transition (the body of one
  \<open>db.transaction\<close>). It reads the balance row of the user and currency. When the row is
  missing, or the current balance is less than the amount, it returns the failure (for the
  latter the insufficient-balance result with the two numbers) and the state is unchanged:
  no balance is mutated and no ledger row is appended. Otherwise it returns the id of the
  new row, and the state differs exactly by the decremented balance and the appended
  completed wallet row of that amount. Interleaving with other requests is outside the
  model.
\<close>

theorem deductUserWallet_atomic:
  "(balances s (u, c) = None \<longrightarrow>
      deductUserWallet u c a bar s = (Inl BalanceNotFound, s)
    \<and> deductUserWalletForSubscription u c a sub s = (Inl BalanceNotFound, s))
 \<and> (\<forall>cur. balances s (u, c) = Some cur \<and> cur < a \<longrightarrow>
      deductUserWallet u c a bar s = (Inl (Insufficient cur a), s)
    \<and> deductUserWalletForSubscription u c a sub s = (Inl (Insufficient cur a), s))
 \<and> (\<forall>cur. balances s (u, c) = Some cur \<and> \<not> cur < a \<longrightarrow>
      (\<exists>row. deductUserWallet u c a bar s =
                (Inr (transactions_seq s), debited s u c cur a row)
            \<and> ledger_row row (transactions_seq s) u c a Withdraw)
    \<and> (\<exists>row. deductUserWalletForSubscription u c a sub s =
                (Inr (transactions_seq s), debited s u c cur a row)
            \<and> ledger_row row (transactions_seq s) u c a Subscription
            \<and> tx_user_subscription_id row = Some sub))"
proof (intro conjI allI impI)
  fix cur assume h: "balances s (u, c) = Some cur \<and> \<not> cur < a"
  show "\<exists>row. deductUserWallet u c a bar s =
                (Inr (transactions_seq s), debited s u c cur a row)
            \<and> ledger_row row (transactions_seq s) u c a Withdraw"
    unfolding deductUserWallet_def using h deduct_ok by blast
  show "\<exists>row. deductUserWalletForSubscription u c a sub s =
                (Inr (transactions_seq s), debited s u c cur a row)
            \<and> ledger_row row (transactions_seq s) u c a Subscription
            \<and> tx_user_subscription_id row = Some sub"
    unfolding deductUserWalletForSubscription_def using h deduct_ok by blast
qed (simp_all add: deductUserWallet_def deductUserWalletForSubscription_def deduct_fail)

theorem deductUserWallet_atomic_witness:
  "deductUserWallet 1 1 2000 None db_wallet = (Inl (Insufficient 1000 2000), db_wallet)
 \<and> fst (deductUserWallet 1 1 400 None db_wallet) = Inr 1
 \<and> balances (snd (deductUserWallet 1 1 400 None db_wallet)) (1, 1) = Some 600
 \<and> length (transactions (snd (deductUserWallet 1 1 400 None db_wallet))) = 1"
proof -
  have b: "balances db_wallet (1, 1) = Some 1000"
    by (simp add: db_wallet_def db0_def)
  have sq: "transactions_seq db_wallet = 1" "transactions db_wallet = []"
    by (simp_all add: db_wallet_def db0_def)
  note t = deductUserWallet_atomic[of db_wallet 1 1 _ None 0]
  have f: "deductUserWallet 1 1 2000 None db_wallet = (Inl (Insufficient 1000 2000), db_wallet)"
    using t[of 2000] b by simp
  from t[of 400] b obtain row where
    ok: "deductUserWallet 1 1 400 None db_wallet =
           (Inr (transactions_seq db_wallet), debited db_wallet 1 1 1000 400 row)"
    by auto
  show ?thesis unfolding ok using f sq by (simp add: debited_def)
qed

subsection \<open>Balances stay non-negative\<close>

lemma balances_nonnegD: "balances_nonneg s \<Longrightarrow> balances s k = Some v \<Longrightarrow> 0 \<le> v"
  unfolding balances_nonneg_def by (erule allE[of _ k], erule allE[of _ v]) simp

lemma fold_nonneg:
  "(\<forall>k v. b k = Some v \<longrightarrow> 0 \<le> v) \<Longrightarrow>
     (\<forall>k v. fold (\<lambda>c b. if b (u, c) = None then b((u, c) \<mapsto> 0) else b) cs b k = Some v
            \<longrightarrow> 0 \<le> v)"
  for cs :: "nat list" and b :: "nat \<times> nat \<rightharpoonup> rat"
proof (induction cs arbitrary: b)
  case Nil
  then show ?case by simp
next
  case (Cons c cs)
  have "\<forall>k v. (if b (u, c) = None then b((u, c) \<mapsto> 0) else b) k = Some v \<longrightarrow> 0 \<le> v"
    using Cons.prems by (simp split: if_splits)
  from Cons.IH[OF this] show ?case by simp
qed

lemma createUserWallet_nonneg:
  assumes "balances_nonneg s" shows "balances_nonneg (createUserWallet u s)"
proof -
  from assms have "\<forall>k v. balances s k = Some v \<longrightarrow> 0 \<le> v"
    by (simp add: balances_nonneg_def)
  note f = fold_nonneg[OF this, of u "currencies s"]
  have bal: "balances (createUserWallet u s) =
      fold (\<lambda>c b. if b (u, c) = None then b((u, c) \<mapsto> 0) else b) (currencies s) (balances s)"
    by (simp add: createUserWallet_def)
  show ?thesis unfolding balances_nonneg_def bal by (rule f)
qed

lemma depositUserWallet_nonneg:
  "balances_nonneg s \<Longrightarrow> 0 \<le> a \<Longrightarrow> balances_nonneg (depositUserWallet u c a s)"
  by (auto simp: balances_nonneg_def depositUserWallet_def split: option.splits)

lemma deduct_nonneg:
  "balances_nonneg s \<Longrightarrow> balances_nonneg (snd (deduct u c a ty b sub s))"
  by (auto simp: balances_nonneg_def deduct_def Let_def split: option.splits)

lemma deductUserWallet_nonneg:
  "balances_nonneg s \<Longrightarrow> balances_nonneg (snd (deductUserWallet u c a bar s))"
  by (simp add: deductUserWallet_def deduct_nonneg)

lemma round2_nonneg: "0 \<le> x \<Longrightarrow> 0 \<le> round2 x"
proof -
  assume "0 \<le> x"
  then have "0 \<le> fmul x 100" by (simp add: fmul_def fl_nonneg)
  then have "0 \<le> mathRound (fmul x 100)" by (simp add: mathRound_def)
  then show ?thesis by (simp add: round2_def fdiv_def fl_nonneg)
qed

lemma finalAmount_nonneg:
  "feeAmount (calculateFee fees a c) \<le> a \<Longrightarrow> 0 \<le> finalAmount (calculateFee fees a c)"
  by (cases "getActiveFeeForCurrency fees c")
     (simp_all add: calculateFee_def Let_def round2_nonneg fsub_def fl_nonneg)

lemma deductUserWallet_balance:
  "balances s (u, c) = Some cur \<Longrightarrow>
     (\<not> isl (fst (deductUserWallet u c a bar s))) = (a \<le> cur)
   \<and> balances (snd (deductUserWallet u c a bar s)) (u, c) =
       Some (if a \<le> cur then cur - a else cur)"
  by (simp add: deductUserWallet_def deduct_def Let_def not_less)

lemma debit_sequence_spec:
  "balances s (u, c) = Some (B - spent) \<Longrightarrow>
     map (\<lambda>r. \<not> isl r) (fst (debit_sequence u c as s)) = spec_accepts B spent as
   \<and> balances (snd (debit_sequence u c as s)) (u, c) = Some (B - spec_spent B spent as)"
proof (induction as arbitrary: s spent)
  case Nil
  then show ?case by simp
next
  case (Cons a as)
  obtain r s1 where d: "deductUserWallet u c a None s = (r, s1)" by (cases "deductUserWallet u c a None s")
  from deductUserWallet_balance[OF Cons.prems, of a None] d
  have r: "(\<not> isl r) = (spent + a \<le> B)"
    and b1: "balances s1 (u, c) = Some (if spent + a \<le> B then B - (spent + a) else B - spent)"
    by (auto simp: algebra_simps)
  show ?case
  proof (cases "spent + a \<le> B")
    case True
    with b1 have "balances s1 (u, c) = Some (B - (spent + a))" by simp
    from Cons.IH[OF this] True r d show ?thesis
      by (simp add: split_beta)
  next
    case False
    with b1 have "balances s1 (u, c) = Some (B - spent)" by simp
    from Cons.IH[OF this] False r d show ?thesis
      by (simp add: split_beta)
  qed
qed

lemma spec_spent_le: "spent \<le> B \<Longrightarrow> spec_spent B spent as \<le> B"
  by (induction as arbitrary: spent) auto

lemma debit_sequence_nonneg:
  "balances_nonneg s \<Longrightarrow> balances_nonneg (snd (debit_sequence u c as s))"
proof (induction as arbitrary: s)
  case Nil
  then show ?case by simp
next
  case (Cons a as)
  from Cons.IH[OF deductUserWallet_nonneg[OF Cons.prems, of u c a None]]
  show ?case by (simp add: split_beta)
qed

text \<open>
  Claim C3, as the code has it. Starting from non-negative balances, \<open>createUserWallet\<close>
  and \<open>deductUserWallet\<close> keep every balance non-negative; \<open>depositUserWallet\<close> keeps
  them non-negative when the deposited amount is non-negative, and so does the seller
  credit of \<open>finalAmount\<close> when the fee does not exceed the amount. For a sequence of
  debits against one account with starting balance \<open>B\<close>, the calls that succeed are exactly
  those the spec accepts (the sum of the amounts accepted so far plus the call's amount does
  not exceed \<open>B\<close>), the final balance is \<open>B\<close> minus the accepted sum, and the accepted sum
  never exceeds a non-negative \<open>B\<close>.
\<close>

theorem wallet_nonneg_amended:
  "(balances_nonneg s \<longrightarrow> balances_nonneg (createUserWallet u s))
 \<and> (balances_nonneg s \<and> 0 \<le> a \<longrightarrow> balances_nonneg (depositUserWallet u c a s))
 \<and> (balances_nonneg s \<and> feeAmount (calculateFee fees a c) \<le> a \<longrightarrow>
      balances_nonneg (depositUserWallet u c (finalAmount (calculateFee fees a c)) s))
 \<and> (balances_nonneg s \<longrightarrow> balances_nonneg (snd (deductUserWallet u c a bar s)))
 \<and> (balances_nonneg s \<longrightarrow> balances_nonneg (snd (debit_sequence u c as s)))
 \<and> (balances s (u, c) = Some B \<longrightarrow>
      map (\<lambda>r. \<not> isl r) (fst (debit_sequence u c as s)) = spec_accepts B 0 as
    \<and> balances (snd (debit_sequence u c as s)) (u, c) = Some (B - spec_spent B 0 as)
    \<and> (0 \<le> B \<longrightarrow> spec_spent B 0 as \<le> B))"
  using createUserWallet_nonneg[of s u] depositUserWallet_nonneg[of s a u c]
    depositUserWallet_nonneg[of s "finalAmount (calculateFee fees a c)" u c]
    finalAmount_nonneg[of fees a c] deductUserWallet_nonneg[of s u c a bar]
    debit_sequence_nonneg[of s u c as] debit_sequence_spec[of s u c B 0 as]
    spec_spent_le[of 0 B as]
  by simp

theorem wallet_nonneg_amended_witness:
  "balances_nonneg (depositUserWallet 2 1 475 db_wallet)
 \<and> map (\<lambda>r. \<not> isl r) (fst (debit_sequence 1 1 [600, 500, 400] db_wallet)) = [True, False, True]
 \<and> balances (snd (debit_sequence 1 1 [600, 500, 400] db_wallet)) (1, 1) = Some 0"
proof -
  have nn: "balances_nonneg db_wallet"
    by (simp add: balances_nonneg_def db_wallet_def db0_def)
  have b: "balances db_wallet (1, 1) = Some 1000"
    by (simp add: db_wallet_def db0_def)
  have acc: "spec_accepts 1000 0 [600, 500, 400] = [True, False, True]"
    "spec_spent 1000 0 [600, 500, 400] = 1000"
    by simp_all
  show ?thesis
    using wallet_nonneg_amended[of db_wallet 2 475 1 "[]" None "[]" 0]
      wallet_nonneg_amended[of db_wallet 1 0 1 "[]" None "[600, 500, 400]" 1000] nn b acc
    by simp
qed

text \<open>
  The claim as stated fails for the seller credit: with a minimum fee of 10, a price of 5
  gives \<open>finalAmount = -5\<close>, and depositing it takes the seller's balance from 0 to -5.
\<close>

theorem seller_credit_negative_counterexample:
  "balances_nonneg db_wallet
 \<and> calculateFee [rule_min10] 5 1 =
     \<lparr>originalAmount = 5, feeAmount = 10, finalAmount = - 5, feePercentage = Text dec_5_00\<rparr>
 \<and> balances (depositUserWallet 2 1 (finalAmount (calculateFee [rule_min10] 5 1)) db_wallet) (2, 1)
     = Some (- 5)
 \<and> \<not> balances_nonneg
       (depositUserWallet 2 1 (finalAmount (calculateFee [rule_min10] 5 1)) db_wallet)"
proof -
  have nn: "balances_nonneg db_wallet"
    by (simp add: balances_nonneg_def db_wallet_def db0_def)
  have f: "calculateFee [rule_min10] 5 1 =
     \<lparr>originalAmount = 5, feeAmount = 10, finalAmount = - 5, feePercentage = Text dec_5_00\<rparr>"
    by code_simp
  have d: "balances (depositUserWallet 2 1 (- 5) db_wallet) (2, 1) = Some (- 5)"
    by (simp add: depositUserWallet_def db_wallet_def db0_def)
  have "\<not> balances_nonneg (depositUserWallet 2 1 (- 5) db_wallet)"
  proof
    assume "balances_nonneg (depositUserWallet 2 1 (- 5) db_wallet)"
    from balances_nonnegD[OF this d] show False by simp
  qed
  with nn f d show ?thesis by simp
qed

subsection \<open>Token not found\<close>

lemma createTransaction_pending:
  "p_status p = Some Pending \<Longrightarrow>
   fst (createTransaction p s) = transactions_seq s \<and> pending_inserted s (snd (createTransaction p s))"
  unfolding createTransaction_def pending_inserted_def Let_def
  by (simp, rule exI[of _ "\<lparr>tx_id = transactions_seq s, tx_user_id = p_userId p, tx_currency_id = p_currencyId p,
                 tx_amount = p_amount p, tx_type = p_type p, tx_source = p_source p,
                 tx_user_subscription_id = p_userSubscriptionId p, tx_bar_id = p_barId p,
                 tx_status = p_status p, tx_order_id = p_orderId p,
                 tx_payment_id = p_paymentId p, tx_transaction_data = p_transactionData p,
                 tx_subscription_plan_id = p_subscriptionPlanId p,
                 tx_subscription_price_id = p_subscriptionPriceId p\<rparr>"], simp)

lemma createTransaction_tokens [simp]:
  "getPaymentTokenById (snd (createTransaction p s)) t u = getPaymentTokenById s t u"
  by (simp add: createTransaction_def getPaymentTokenById_def Let_def)

lemma pending_inserted_quiet:
  "pending_inserted s s' \<Longrightarrow>
     balances s' = balances s \<and> gateway_responses s' = gateway_responses s
   \<and> user_subscriptions s' = user_subscriptions s
   \<and> effects s' = effects s @ [InsertTransaction (transactions_seq s) (Some Pending)]"
  by (auto simp: pending_inserted_def)

lemma validatePurchase_token:
  "validatePurchase e s u body = Inr x \<Longrightarrow> cp_payment_type body = ByToken \<Longrightarrow>
   \<exists>t. cp_token_id body = Some t \<and> t \<noteq> 0"
  by (auto simp: validatePurchase_def truthy_id_def split: if_splits option.splits prod.splits)

lemma createPayment_invalid:
  "validatePurchase e s u body = Inl err \<Longrightarrow> createPayment e u body s = (Inl err, s)"
  by (simp add: createPayment_def)

lemma createPayment_token_missing:
  assumes ty: "cp_payment_type body = ByToken"
    and tok: "\<forall>t. cp_token_id body = Some t \<longrightarrow> getPaymentTokenById s t u = None"
    and v: "validatePurchase e s u body = Inr (bar, price)"
    and sq: "transactions_seq s \<noteq> 0"
  shows "fst (createPayment e u body s) = Inl PaymentTokenNotFound
       \<and> pending_inserted s (snd (createPayment e u body s))"
proof -
  from validatePurchase_token[OF v ty] obtain t where t: "cp_token_id body = Some t" "t \<noteq> 0"
    by blast
  let ?p = "(tx_params u (case cp_currency_id body of Some c \<Rightarrow> c | None \<Rightarrow> 1) price
                Withdraw Card Pending)\<lparr>p_barId := Some (cp_bar_id body)\<rparr>"
  have st: "p_status ?p = Some Pending" by (simp add: tx_params_def)
  note c = createTransaction_pending[OF st, of s]
  have "createPayment e u body s = (Inl PaymentTokenNotFound, snd (createTransaction ?p s))"
    using ty v t tok sq c
    by (simp add: createPayment_def payWithToken_def truthy_id_def split_beta)
  with c show ?thesis by simp
qed

lemma createPayment_token_any:
  assumes ty: "cp_payment_type body = ByToken"
    and tok: "\<forall>t. cp_token_id body = Some t \<longrightarrow> getPaymentTokenById s t u = None"
  shows "(\<exists>err. fst (createPayment e u body s) = Inl err)
       \<and> (snd (createPayment e u body s) = s \<or> pending_inserted s (snd (createPayment e u body s)))"
proof (cases "validatePurchase e s u body")
  case (Inl err)
  from createPayment_invalid[OF this] show ?thesis by simp
next
  case (Inr x)
  obtain bar price where x: "x = (bar, price)" by (cases x)
  show ?thesis
  proof (cases "transactions_seq s = 0")
    case False
    from createPayment_token_missing[OF ty tok Inr[unfolded x] False] show ?thesis by simp
  next
    case True
    let ?p = "(tx_params u (case cp_currency_id body of Some c \<Rightarrow> c | None \<Rightarrow> 1) price
                Withdraw Card Pending)\<lparr>p_barId := Some (cp_bar_id body)\<rparr>"
    have st: "p_status ?p = Some Pending" by (simp add: tx_params_def)
    note c = createTransaction_pending[OF st, of s]
    have "createPayment e u body s = (Inl FailedToCreateTransaction, snd (createTransaction ?p s))"
      using ty Inr x True c
      by (simp add: createPayment_def payWithToken_def truthy_id_def split_beta)
    with c show ?thesis by simp
  qed
qed

lemma topUp_token_missing:
  assumes ty: "tu_paymentType tb = ByToken"
    and tok: "\<forall>t. tu_tokenId tb = Some t \<longrightarrow> getPaymentTokenById s t u = None"
    and pre: "tu_amount tb \<noteq> 0" "truthy_str (tu_email tb)" "truthy_id (tu_tokenId tb)"
      "topUp_config_complete e"
  shows "fst (topUp e u tb s) = Inl PaymentTokenNotFound \<and> pending_inserted s (snd (topUp e u tb s))"
proof -
  from pre(3) obtain t where t: "tu_tokenId tb = Some t"
    by (auto simp: truthy_id_def split: option.splits)
  let ?p = "tx_params u (case tu_currencyId tb of Some c \<Rightarrow> c | None \<Rightarrow> 1) (tu_amount tb)
              Deposit Card Pending"
  have st: "p_status ?p = Some Pending" by (simp add: tx_params_def)
  note c = createTransaction_pending[OF st, of s]
  have "topUp e u tb s = (Inl PaymentTokenNotFound, snd (createTransaction ?p s))"
    using ty pre t tok
    by (simp add: topUp_def topUpWithToken_def topUp_config_complete_def Let_def split_beta)
  with c show ?thesis by simp
qed

lemma topUp_token_any:
  assumes ty: "tu_paymentType tb = ByToken"
    and tok: "\<forall>t. tu_tokenId tb = Some t \<longrightarrow> getPaymentTokenById s t u = None"
  shows "(\<exists>err. fst (topUp e u tb s) = Inl err)
       \<and> (snd (topUp e u tb s) = s \<or> pending_inserted s (snd (topUp e u tb s)))"
proof (cases "tu_amount tb \<noteq> 0 \<and> truthy_str (tu_email tb) \<and> truthy_id (tu_tokenId tb)
      \<and> topUp_config_complete e")
  case True
  with topUp_token_missing[OF ty tok] show ?thesis by simp
next
  case False
  then have "\<exists>err. topUp e u tb s = (Inl err, s)"
    using ty by (auto simp: topUp_def topUp_config_complete_def Let_def)
  then show ?thesis by auto
qed

text \<open>
  Claim C10. A token-funded purchase (\<open>createPayment\<close>) or top-up (\<open>topUp\<close>) whose
  \<open>token_id\<close> identifies no payment token of the requesting user always fails, and its
  final state is either the initial one (a precondition check failed) or the initial one
  with the pending transaction inserted. When the precondition checks pass, the error is
  the not-found error (status 404) and the pending transaction has been inserted. In a
  state with only the pending transaction inserted no balance has changed, no gateway
  answer has been consumed, and the log holds the insertion alone: no gateway request was
  sent and the record was not updated.
\<close>

theorem token_not_found:
  "(cp_payment_type body = ByToken
      \<and> (\<forall>t. cp_token_id body = Some t \<longrightarrow> getPaymentTokenById s t u = None) \<longrightarrow>
      (\<exists>err. fst (createPayment e u body s) = Inl err)
    \<and> (snd (createPayment e u body s) = s \<or> pending_inserted s (snd (createPayment e u body s)))
    \<and> (\<forall>bar price. validatePurchase e s u body = Inr (bar, price) \<and> transactions_seq s \<noteq> 0 \<longrightarrow>
         fst (createPayment e u body s) = Inl PaymentTokenNotFound
       \<and> pending_inserted s (snd (createPayment e u body s))))
 \<and> (tu_paymentType tb = ByToken
      \<and> (\<forall>t. tu_tokenId tb = Some t \<longrightarrow> getPaymentTokenById s t u = None) \<longrightarrow>
      (\<exists>err. fst (topUp e u tb s) = Inl err)
    \<and> (snd (topUp e u tb s) = s \<or> pending_inserted s (snd (topUp e u tb s)))
    \<and> (tu_amount tb \<noteq> 0 \<and> truthy_str (tu_email tb) \<and> truthy_id (tu_tokenId tb)
         \<and> topUp_config_complete e \<longrightarrow>
         fst (topUp e u tb s) = Inl PaymentTokenNotFound
       \<and> pending_inserted s (snd (topUp e u tb s))))
 \<and> (\<forall>s'. pending_inserted s s' \<longrightarrow>
       balances s' = balances s \<and> gateway_responses s' = gateway_responses s
     \<and> effects s' = effects s @ [InsertTransaction (transactions_seq s) (Some Pending)])
 \<and> statusCode PaymentTokenNotFound = Some 404"
proof (intro conjI impI allI)
  fix s' assume "pending_inserted s s'"
  from pending_inserted_quiet[OF this]
  show "balances s' = balances s" "gateway_responses s' = gateway_responses s"
    "effects s' = effects s @ [InsertTransaction (transactions_seq s) (Some Pending)]"
    by simp_all
next
  show "statusCode PaymentTokenNotFound = Some 404" by simp
qed (use createPayment_token_any createPayment_token_missing topUp_token_any topUp_token_missing
      in \<open>blast+\<close>)

theorem token_not_found_witness:
  "fst (createPayment env0 1 body_token db_shop) = Inl PaymentTokenNotFound
 \<and> balances (snd (createPayment env0 1 body_token db_shop)) = balances db_shop
 \<and> effects (snd (createPayment env0 1 body_token db_shop)) = [InsertTransaction 1 (Some Pending)]
 \<and> fst (topUp env0 1 topup_token db_shop) = Inl PaymentTokenNotFound
 \<and> effects (snd (topUp env0 1 topup_token db_shop)) = [InsertTransaction 1 (Some Pending)]"
proof -
  have v: "validatePurchase env0 db_shop 1 body_token = Inr (bar7, 500)"
    by (simp add: validatePurchase_def env0_def body_token_def bar7_def db_shop_def db0_def
        sub1_def truthy_str_def truthy_id_def hasActiveSubscription_def hasUserPurchasedBar_def)
  have ty: "cp_payment_type body_token = ByToken" "tu_paymentType topup_token = ByToken"
    by (simp_all add: body_token_def topup_token_def)
  have tok: "\<forall>t. cp_token_id body_token = Some t \<longrightarrow> getPaymentTokenById db_shop t 1 = None"
    "\<forall>t. tu_tokenId topup_token = Some t \<longrightarrow> getPaymentTokenById db_shop t 1 = None"
    by (simp_all add: getPaymentTokenById_def db_shop_def db0_def)
  have sq: "transactions_seq db_shop = 1" "effects db_shop = []"
    by (simp_all add: db_shop_def db0_def)
  have pre: "tu_amount topup_token \<noteq> 0" "truthy_str (tu_email topup_token)"
    "truthy_id (tu_tokenId topup_token)" "topUp_config_complete env0"
    by (simp_all add: topup_token_def truthy_str_def truthy_id_def topUp_config_complete_def
        env0_def config0_def)
  note t = token_not_found[of body_token db_shop 1 env0 topup_token]
  from t ty tok v sq have a: "fst (createPayment env0 1 body_token db_shop) = Inl PaymentTokenNotFound"
    and b: "pending_inserted db_shop (snd (createPayment env0 1 body_token db_shop))"
    by auto
  from t ty tok pre have c: "fst (topUp env0 1 topup_token db_shop) = Inl PaymentTokenNotFound"
    and d: "pending_inserted db_shop (snd (topUp env0 1 topup_token db_shop))"
    by auto
  from t b d sq a c show ?thesis by auto
qed

subsection \<open>Replayed callbacks\<close>

text \<open>
  Claim C1 at its failing input. Transaction 1 is a pending card deposit of 100 by user 1,
  whose balance is 1000. The success callback for its order, applied once, credits the
  wallet (1100) and completes the transaction; the same callback applied again to the now
  completed transaction credits the wallet a second time (1200): the log holds two credits.
  Likewise the subscription callback of transaction 2 creates a subscription at each of its
  two applications.
\<close>

theorem callback_replay_credits_twice:
  "balances db_callbacks (1, 1) = Some 1000
 \<and> balances deposit_callback_once (1, 1) = Some 1100
 \<and> map tx_status (transactions deposit_callback_once) = [Some Completed, Some Pending]
 \<and> balances deposit_callback_twice (1, 1) = Some 1200
 \<and> filter (\<lambda>x. x = CreditBalance 1 1 100) (effects deposit_callback_twice)
      = [CreditBalance 1 1 100, CreditBalance 1 1 100]
 \<and> length (user_subscriptions db_callbacks) = 1
 \<and> length (user_subscriptions subscription_callback_once) = 2
 \<and> map tx_status (transactions subscription_callback_once) = [Some Pending, Some Completed]
 \<and> length (user_subscriptions subscription_callback_twice) = 3"
  by code_simp

text \<open>The purchase callback does carry the guard: for a transaction that is already
  completed it credits no wallet.\<close>

lemma payment_callback_guarded:
  "callbackHead e s data sign = Inr (d, tx) \<Longrightarrow> tx_status tx = Some Completed \<Longrightarrow>
   balances (snd (payment_callback e data sign s)) = balances s"
  by (simp add: payment_callback_def Let_def createToken_def updateTransaction_def
      split: option.splits)

subsection \<open>Signature verification\<close>






lemma sendRequest_forged:
  assumes "next_response_forged e s"
  shows "\<exists>r. fst (sendRequest ep body s) = Inr r
           \<and> signature_mismatch e (resp_data r) (resp_sign r)"
  using assms
  by (auto simp: next_response_forged_def sendRequest_def Let_def split: list.splits option.splits)

lemma forged_createTransaction [simp]:
  "next_response_forged e (snd (createTransaction p s)) = next_response_forged e s"
  by (simp add: next_response_forged_def createTransaction_def Let_def)


















subsection \<open>The pending record of an attempt\<close>


lemma log_extends_trans: "log_extends s s1 \<Longrightarrow> log_extends s1 s2 \<Longrightarrow> log_extends s s2"
  by (auto simp: log_extends_def)




















subsection \<open>The renewal pass\<close>

lemma createTransaction_subs [simp]:
  "user_subscriptions (snd (createTransaction p s)) = user_subscriptions s"
  "user_subscriptions_seq (snd (createTransaction p s)) = user_subscriptions_seq s"
  "gateway_responses (snd (createTransaction p s)) = gateway_responses s"
  by (simp_all add: createTransaction_def Let_def)

lemma updateTransaction_subs [simp]:
  "user_subscriptions (updateTransaction t u s) = user_subscriptions s"
  "user_subscriptions_seq (updateTransaction t u s) = user_subscriptions_seq s"
  by (simp_all add: updateTransaction_def)

lemma sendRequest_subs [simp]:
  "user_subscriptions (snd (sendRequest ep b s)) = user_subscriptions s"
  "user_subscriptions_seq (snd (sendRequest ep b s)) = user_subscriptions_seq s"
  by (simp_all add: sendRequest_def Let_def split: list.splits option.splits)

lemma createSubscription_subs:
  "(user_subscriptions (snd (createSubscription e u p a m pan s)) = user_subscriptions s
      \<and> user_subscriptions_seq (snd (createSubscription e u p a m pan s)) = user_subscriptions_seq s)
 \<or> (\<exists>n. user_subscriptions (snd (createSubscription e u p a m pan s)) = user_subscriptions s @ [n]
      \<and> sub_id n = user_subscriptions_seq s
      \<and> user_subscriptions_seq (snd (createSubscription e u p a m pan s))
          = Suc (user_subscriptions_seq s))"
  by (simp add: createSubscription_def Let_def split: option.splits)





















end
